theory Spec2Isabelle
  imports Main "HOL-Library.Word"
begin

section \<open>Errors\<close>

text \<open>
  Go error values.  \<open>ErrorString\<close> is \<open>errors.New\<close>; the two sentinel errors are the
  package variables of \<open>pwhash\<close>; \<open>ScanError\<close>, \<open>ErrEOF\<close> and \<open>ErrUnexpectedEOF\<close>
  are what \<open>fmt.Sscanf\<close> reports, \<open>NumError\<close> what \<open>strconv\<close> reports,
  \<open>CorruptInputError\<close> what \<open>encoding/base64\<close> reports (the byte offset it carries is
  not modelled), \<open>StoreError\<close> any error handed back by a store or token collaborator.
\<close>

datatype error =
    ErrInvalidHash
  | ErrIncompatibleVersion
  | ErrorString string
  | ScanError string
  | ErrEOF
  | ErrUnexpectedEOF
  | NumError string
  | CorruptInputError
  | StoreError string

text \<open>A Go call either returns or panics.\<close>

datatype 'a result = Panic string | Return 'a

definition bindE :: "error + 'a \<Rightarrow> ('a \<Rightarrow> error + 'b) \<Rightarrow> error + 'b" where
  "bindE m f = (case m of Inl e \<Rightarrow> Inl e | Inr x \<Rightarrow> f x)"

section \<open>The participant user (package participantuser)\<close>

text \<open>
  Object ids are modelled by their hexadecimal rendering (\<open>ID.Hex()\<close>), unix timestamps
  (\<open>int64\<close>) by \<open>int\<close>.  Of the structures declared outside the reviewed files only the
  fields the reviewed code reads or writes are kept.
\<close>

record VerificationCode =
  Code :: string
  Attempts :: int
  CreatedAt :: int
  ExpiresAt :: int

definition emptyVerificationCode :: VerificationCode where
  "emptyVerificationCode = \<lparr>Code = [], Attempts = 0, CreatedAt = 0, ExpiresAt = 0\<rparr>"

record Account =
  Type :: string
  AccountID :: string
  AccountConfirmedAt :: int
  Password :: string
  PreferredLanguage :: string
  VerificationCode :: VerificationCode
  FailedLoginAttempts :: "int list"
  PasswordResetTriggers :: "int list"

record Timestamps =
  LastTokenRefresh :: int
  LastLogin :: int
  tsCreatedAt :: int
  UpdatedAt :: int
  LastPasswordChange :: int
  ReminderToConfirmSentAt :: int
  MarkedForDeletion :: int

record Profile =
  profileID :: string
  MainProfile :: bool
  profileCreatedAt :: int

record ContactPreferences =
  SendNewsletterTo :: "string list"

record ContactInfo =
  ciID :: string
  ciType :: string
  ConfirmedAt :: int
  ConfirmationLinkSentAt :: int
  Email :: string
  Phone :: string

record User =
  ID :: string
  Account :: Account
  Timestamps :: Timestamps
  Profiles :: "Profile list"
  ContactPreferences :: ContactPreferences
  ContactInfos :: "ContactInfo list"


subsection \<open>Contact infos\<close>

text \<open>
  \<open>ConfirmContactInfo\<close>: the first entry whose address matches for the given type gets
  its confirmation time set to now.  \<open>None\<close> is the loop running to its end.
\<close>

fun confirmLoop :: "int \<Rightarrow> string \<Rightarrow> string \<Rightarrow> ContactInfo list \<Rightarrow> ContactInfo list option" where
  "confirmLoop now t addr [] = None"
| "confirmLoop now t addr (ci # cis) =
     (if t = ''email'' \<and> Email ci = addr then Some (ci\<lparr>ConfirmedAt := now\<rparr> # cis)
      else if t = ''phone'' \<and> Phone ci = addr then Some (ci\<lparr>ConfirmedAt := now\<rparr> # cis)
      else (case confirmLoop now t addr cis of
              None \<Rightarrow> None
            | Some r \<Rightarrow> Some (ci # r)))"

definition ConfirmContactInfo :: "int \<Rightarrow> User \<Rightarrow> string \<Rightarrow> string \<Rightarrow> error option \<times> User" where
  "ConfirmContactInfo now u t addr =
     (case confirmLoop now t addr (ContactInfos u) of
        Some cis \<Rightarrow> (None, u\<lparr>ContactInfos := cis\<rparr>)
      | None \<Rightarrow> (Some (ErrorString ''contact not found''), u))"









section \<open>Library functions used by package pwhash\<close>

type_synonym byte = "8 word"

definition bytesOf :: "string \<Rightarrow> byte list" where
  "bytesOf str = map (\<lambda>c. of_nat (of_char c)) str"

subsection \<open>strings.Split on a one-byte separator\<close>

fun splitOn :: "char \<Rightarrow> string \<Rightarrow> string list" where
  "splitOn sep [] = [[]]"
| "splitOn sep (c # cs) =
     (if c = sep then [] # splitOn sep cs
      else (case splitOn sep cs of f # fs \<Rightarrow> (c # f) # fs | [] \<Rightarrow> [[c]]))"

subsection \<open>Decimal rendering (the verb \<open>%d\<close> of fmt.Sprintf)\<close>

definition digitChar :: "nat \<Rightarrow> char" where
  "digitChar d = ''0123456789'' ! d"

fun formatUint :: "nat \<Rightarrow> string" where
  "formatUint n = (if n < 10 then [digitChar n] else formatUint (n div 10) @ [digitChar (n mod 10)])"

declare formatUint.simps [simp del]

definition formatInt :: "int \<Rightarrow> string" where
  "formatInt i = (if i < 0 then CHR ''-'' # formatUint (nat (- i)) else formatUint (nat i))"

subsection \<open>fmt.Sscanf with literal text and the verb \<open>%d\<close>\<close>

text \<open>
  The scanner state is the input still unread.  Input is read byte by byte: the model is
  that of \<open>fmt\<close> for ASCII input (the white space \<open>fmt\<close> knows beyond ASCII, such as
  U+00A0, is not recognised here).  Input left over when the format is used up is
  ignored, as \<open>Sscanf\<close> does.
\<close>

definition isSpace :: "char \<Rightarrow> bool" where
  "isSpace c = (let n = of_char c :: nat in (9 \<le> n \<and> n \<le> 13) \<or> n = 32)"

fun SkipSpace :: "string \<Rightarrow> error + string" where
  "SkipSpace [] = Inr []"
| "SkipSpace (c # cs) =
     (if c = CHR 0x0D \<and> (case cs of [] \<Rightarrow> False | d # _ \<Rightarrow> d = CHR 0x0A) then SkipSpace cs
      else if c = CHR 0x0A then Inl (ScanError ''unexpected newline'')
      else if \<not> isSpace c then Inr (c # cs)
      else SkipSpace cs)"

text \<open>\<open>advance\<close> over literal format text that holds no space, newline or percent sign.\<close>

fun advance :: "string \<Rightarrow> string \<Rightarrow> error + string" where
  "advance [] inp = Inr inp"
| "advance (f # fs) [] = Inl ErrUnexpectedEOF"
| "advance (f # fs) (c # cs) =
     (if f = c then advance fs cs else Inl (ScanError ''input does not match format''))"

text \<open>The digits of the verb \<open>%d\<close> (an underscore is a digit only for \<open>%v\<close>).\<close>

definition isNumChar :: "char \<Rightarrow> bool" where
  "isNumChar c = (c \<in> set ''0123456789'')"

definition scanNumber :: "string \<Rightarrow> error + (string \<times> string)" where
  "scanNumber inp =
     (case inp of
        [] \<Rightarrow> Inl ErrEOF
      | c # cs \<Rightarrow>
          if \<not> isNumChar c then Inl (ScanError ''expected integer'')
          else Inr (takeWhile isNumChar inp, dropWhile isNumChar inp))"

definition digitVal :: "char \<Rightarrow> nat option" where
  "digitVal c = (let n = of_char c :: nat in if 48 \<le> n \<and> n \<le> 57 then Some (n - 48) else None)"

fun parseDigits :: "nat \<Rightarrow> string \<Rightarrow> nat option" where
  "parseDigits acc [] = Some acc"
| "parseDigits acc (c # cs) =
     (case digitVal c of None \<Rightarrow> None | Some d \<Rightarrow> parseDigits (acc * 10 + d) cs)"

text \<open>\<open>strconv.ParseUint\<close> and \<open>strconv.ParseInt\<close> in base 10 with bit size 64.\<close>

definition ParseUint :: "string \<Rightarrow> error + nat" where
  "ParseUint tok =
     (if tok = [] then Inl (NumError ''invalid syntax'')
      else (case parseDigits 0 tok of
              None \<Rightarrow> Inl (NumError ''invalid syntax'')
            | Some n \<Rightarrow> if n < 2 ^ 64 then Inr n else Inl (NumError ''value out of range'')))"

definition ParseInt :: "string \<Rightarrow> error + int" where
  "ParseInt tok =
     (if tok = [] then Inl (NumError ''invalid syntax'')
      else
        (let neg = (hd tok = CHR ''-'');
             body = (if hd tok = CHR ''+'' \<or> hd tok = CHR ''-'' then tl tok else tok)
         in (case ParseUint body of
               Inl e \<Rightarrow> Inl e
             | Inr un \<Rightarrow>
                 if \<not> neg \<and> un \<ge> 2 ^ 63 then Inl (NumError ''value out of range'')
                 else if neg \<and> un > 2 ^ 63 then Inl (NumError ''value out of range'')
                 else Inr (if neg then - int un else int un))))"

definition scanUint :: "nat \<Rightarrow> string \<Rightarrow> error + (nat \<times> string)" where
  "scanUint bitSize inp =
     bindE (SkipSpace inp) (\<lambda>inp1.
     bindE (scanNumber inp1) (\<lambda>(tok, rest).
     bindE (ParseUint tok) (\<lambda>i.
       if i < 2 ^ bitSize then Inr (i, rest)
       else Inl (ScanError (''unsigned integer overflow on token '' @ tok)))))"

definition scanInt :: "nat \<Rightarrow> string \<Rightarrow> error + (int \<times> string)" where
  "scanInt bitSize inp =
     bindE (SkipSpace inp) (\<lambda>inp1.
       (case inp1 of
          [] \<Rightarrow> Inl ErrEOF
        | c # cs \<Rightarrow>
            (let signed = (c = CHR ''+'' \<or> c = CHR ''-'');
                 sgn = (if signed then [c] else []);
                 inp2 = (if signed then cs else inp1)
             in bindE (scanNumber inp2) (\<lambda>(tok, rest).
                bindE (ParseInt (sgn @ tok)) (\<lambda>i.
                  if - (2 ^ (bitSize - 1)) \<le> i \<and> i < 2 ^ (bitSize - 1) then Inr (i, rest)
                  else Inl (ScanError (''integer overflow on token '' @ sgn @ tok)))))))"

text \<open>\<open>fmt.Sscanf(s, "v=%d", &version)\<close> with \<open>version\<close> an \<open>int\<close> (64 bits).\<close>

definition Sscanf_v :: "string \<Rightarrow> error + int" where
  "Sscanf_v str =
     bindE (advance ''v='' str) (\<lambda>s1.
     bindE (SkipSpace s1) (\<lambda>s2.
     bindE (scanInt 64 s2) (\<lambda>(version, _). Inr version)))"

text \<open>
  \<open>fmt.Sscanf(s, "m=%d,t=%d,p=%d", &p.memory, &p.iterations, &p.parallelism)\<close> with
  operands of type \<open>uint32\<close>, \<open>uint32\<close> and \<open>uint8\<close>.
\<close>

definition Sscanf_mtp :: "string \<Rightarrow> error + (32 word \<times> 32 word \<times> 8 word)" where
  "Sscanf_mtp str =
     bindE (advance ''m='' str) (\<lambda>s1.
     bindE (SkipSpace s1) (\<lambda>s2.
     bindE (scanUint 32 s2) (\<lambda>(m, s3).
     bindE (advance '',t='' s3) (\<lambda>s4.
     bindE (SkipSpace s4) (\<lambda>s5.
     bindE (scanUint 32 s5) (\<lambda>(t, s6).
     bindE (advance '',p='' s6) (\<lambda>s7.
     bindE (SkipSpace s7) (\<lambda>s8.
     bindE (scanUint 8 s8) (\<lambda>(p, _).
       Inr (of_nat m, of_nat t, of_nat p))))))))))"

subsection \<open>base64.RawStdEncoding\<close>

definition encodeStd :: string where
  "encodeStd = ''ABCDEFGHIJKLMNOPQRSTUVWXYZabcdefghijklmnopqrstuvwxyz0123456789+/''"

definition enc6 :: "nat \<Rightarrow> char" where
  "enc6 n = encodeStd ! (n mod 64)"

fun indexOf :: "char \<Rightarrow> string \<Rightarrow> nat option" where
  "indexOf c [] = None"
| "indexOf c (x # xs) =
     (if c = x then Some 0 else (case indexOf c xs of None \<Rightarrow> None | Some i \<Rightarrow> Some (Suc i)))"

definition decodeMap :: "char \<Rightarrow> nat option" where
  "decodeMap c = indexOf c encodeStd"

text \<open>
  \<open>EncodeToString\<close>: three bytes make the 24-bit value \<open>b0<<16 | b1<<8 | b2\<close>, written
  here with multiplication and addition (the shifted bytes do not overlap); its four
  6-bit digits \<open>val>>18&0x3F\<close>, \<open>val>>12&0x3F\<close>, \<open>val>>6&0x3F\<close>, \<open>val&0x3F\<close> index the
  alphabet.  A remainder of one or two bytes gives two or three characters; the raw
  encoding adds no padding.
\<close>

fun EncodeToString :: "byte list \<Rightarrow> string" where
  "EncodeToString [] = []"
| "EncodeToString [b0] =
     (let val = unat b0 * 65536
      in [enc6 (val div 262144), enc6 (val div 4096)])"
| "EncodeToString [b0, b1] =
     (let val = unat b0 * 65536 + unat b1 * 256
      in [enc6 (val div 262144), enc6 (val div 4096), enc6 (val div 64)])"
| "EncodeToString (b0 # b1 # b2 # rest) =
     (let val = unat b0 * 65536 + unat b1 * 256 + unat b2
      in enc6 (val div 262144) # enc6 (val div 4096) # enc6 (val div 64) # enc6 val
         # EncodeToString rest)"

text \<open>
  \<open>DecodeString\<close> (not strict, no padding character): carriage returns and line feeds
  are skipped, any other byte outside the alphabet is a \<open>CorruptInputError\<close>; four digits
  give three bytes, a last group of three gives two bytes, of two gives one byte, and a
  single left-over digit is a \<open>CorruptInputError\<close>.  \<open>dbuf\<close> holds the digits of the
  quantum being read.
\<close>

definition quantumValue :: "nat list \<Rightarrow> nat" where
  "quantumValue dbuf =
     (case dbuf @ [0, 0, 0, 0] of
        d0 # d1 # d2 # d3 # _ \<Rightarrow> d0 * 262144 + d1 * 4096 + d2 * 64 + d3
      | _ \<Rightarrow> 0)"

definition quantumBytes :: "nat list \<Rightarrow> byte list" where
  "quantumBytes dbuf =
     (let val = quantumValue dbuf
      in take (length dbuf - 1)
           [of_nat (val div 65536), of_nat (val div 256), of_nat val])"

fun decodeLoop :: "nat list \<Rightarrow> string \<Rightarrow> error + byte list" where
  "decodeLoop dbuf [] =
     (if length dbuf = 1 then Inl CorruptInputError else Inr (quantumBytes dbuf))"
| "decodeLoop dbuf (c # cs) =
     (case decodeMap c of
        Some out \<Rightarrow>
          (if length dbuf = 3
           then (case decodeLoop [] cs of
                   Inl e \<Rightarrow> Inl e
                 | Inr bs \<Rightarrow> Inr (quantumBytes (dbuf @ [out]) @ bs))
           else decodeLoop (dbuf @ [out]) cs)
      | None \<Rightarrow>
          (if c = CHR 0x0A \<or> c = CHR 0x0D then decodeLoop dbuf cs
           else Inl CorruptInputError))"

definition DecodeString :: "string \<Rightarrow> error + byte list" where
  "DecodeString str = decodeLoop [] str"

subsection \<open>subtle.ConstantTimeCompare\<close>

definition ConstantTimeCompare :: "byte list \<Rightarrow> byte list \<Rightarrow> int" where
  "ConstantTimeCompare x y =
     (if length x \<noteq> length y then 0
      else if fold (\<lambda>(a, b) v. or v (xor a b)) (zip x y) (0 :: byte) = 0 then 1 else 0)"

subsection \<open>argon2.IDKey\<close>

text \<open>
  The key derivation itself is a parameter: \<open>kdf password salt time memory threads keyLen i\<close>
  is byte \<open>i\<close> of the derived key.  What is modelled of \<open>golang.org/x/crypto/argon2\<close> is
  that the key has \<open>keyLen\<close> bytes and is a function of the six arguments, and the
  three ways in which the call panics: the two argument checks with which the derivation
  begins (the number of passes below one, the degree of parallelism below one), and a key
  length of zero, for which the final hashing step gets no hash object from
  \<open>blake2b.New\<close> and dereferences nil.
\<close>

type_synonym kdf = "byte list \<Rightarrow> byte list \<Rightarrow> 32 word \<Rightarrow> 32 word \<Rightarrow> 8 word \<Rightarrow> 32 word \<Rightarrow> nat \<Rightarrow> byte"

definition argon2_Version :: int where
  "argon2_Version = 0x13"

definition IDKey ::
  "kdf \<Rightarrow> byte list \<Rightarrow> byte list \<Rightarrow> 32 word \<Rightarrow> 32 word \<Rightarrow> 8 word \<Rightarrow> 32 word \<Rightarrow> byte list result" where
  "IDKey k password salt time memory threads keyLen =
     (if time < 1 then Panic ''argon2: number of rounds too small''
      else if threads < 1 then Panic ''argon2: parallelism degree too low''
      else if keyLen = 0
      then Panic ''runtime error: invalid memory address or nil pointer dereference''
      else Return (map (k password salt time memory threads keyLen) [0..<unat keyLen]))"

subsection \<open>crypto/rand\<close>

text \<open>A draw from the random source either fails or yields as many bytes as asked for.\<close>

record RandSource =
  randError :: "error option"
  randByte :: "nat \<Rightarrow> byte"

section \<open>Password hashing (package pwhash)\<close>

definition argon2SaltLength :: nat where
  "argon2SaltLength = 16"

definition argon2KeyLength :: "32 word" where
  "argon2KeyLength = 32"

text \<open>The three package variables holding the cost parameters.\<close>

record ArgonParams =
  argon2Memory :: "32 word"
  argon2Iterations :: "32 word"
  argon2Parallelism :: "8 word"

definition defaultArgonParams :: ArgonParams where
  "defaultArgonParams =
     \<lparr>argon2Memory = 64 * 1024, argon2Iterations = 4, argon2Parallelism = 1\<rparr>"

record hashParams =
  memory :: "32 word"
  iterations :: "32 word"
  parallelism :: "8 word"
  saltLength :: "32 word"
  keyLength :: "32 word"

text \<open>
  \<open>InitArgonParamsFromEnv\<close>: each argument is the outcome of \<open>strconv.Atoi\<close> on the
  environment variable (\<open>None\<close> when it does not parse), converted to the variable's
  width when positive.
\<close>

definition InitArgonParamsFromEnv ::
  "ArgonParams \<Rightarrow> int option \<Rightarrow> int option \<Rightarrow> int option \<Rightarrow> ArgonParams" where
  "InitArgonParamsFromEnv g a2m a2i a2p =
     (let g1 = (case a2m of Some v \<Rightarrow> if v > 0 then g\<lparr>argon2Memory := of_int v\<rparr> else g
                           | None \<Rightarrow> g);
          g2 = (case a2i of Some v \<Rightarrow> if v > 0 then g1\<lparr>argon2Iterations := of_int v\<rparr> else g1
                           | None \<Rightarrow> g1)
      in (case a2p of Some v \<Rightarrow> if v > 0 then g2\<lparr>argon2Parallelism := of_int v\<rparr> else g2
                     | None \<Rightarrow> g2))"

definition generateRandomBytes :: "RandSource \<Rightarrow> nat \<Rightarrow> error + byte list" where
  "generateRandomBytes rnd n =
     (case randError rnd of
        Some e \<Rightarrow> Inl e
      | None \<Rightarrow> Inr (map (randByte rnd) [0..<n]))"

definition encodeHashString :: "ArgonParams \<Rightarrow> string \<Rightarrow> string \<Rightarrow> string" where
  "encodeHashString g b64Salt b64Hash =
     ''$argon2id$v='' @ formatInt argon2_Version
     @ ''$m='' @ formatUint (unat (argon2Memory g))
     @ '',t='' @ formatUint (unat (argon2Iterations g))
     @ '',p='' @ formatUint (unat (argon2Parallelism g))
     @ ''$'' @ b64Salt @ ''$'' @ b64Hash"

definition HashPassword ::
  "ArgonParams \<Rightarrow> kdf \<Rightarrow> RandSource \<Rightarrow> string \<Rightarrow> (error + string) result" where
  "HashPassword g k rnd password =
     (case generateRandomBytes rnd argon2SaltLength of
        Inl err \<Rightarrow> Return (Inl err)
      | Inr salt \<Rightarrow>
          (case IDKey k (bytesOf password) salt (argon2Iterations g) (argon2Memory g)
                  (argon2Parallelism g) argon2KeyLength of
             Panic m \<Rightarrow> Panic m
           | Return hash \<Rightarrow>
               Return (Inr (encodeHashString g (EncodeToString salt) (EncodeToString hash)))))"

definition decodeHash :: "string \<Rightarrow> error + (hashParams \<times> byte list \<times> byte list)" where
  "decodeHash encodedHash =
     (let vals = splitOn CHR ''$'' encodedHash
      in if length vals \<noteq> 6 then Inl ErrInvalidHash
         else
           bindE (Sscanf_v (vals ! 2)) (\<lambda>version.
             if version \<noteq> argon2_Version then Inl ErrIncompatibleVersion
             else
               bindE (Sscanf_mtp (vals ! 3)) (\<lambda>(m, t, p).
               bindE (DecodeString (vals ! 4)) (\<lambda>salt.
               bindE (DecodeString (vals ! 5)) (\<lambda>hash.
                 Inr (\<lparr>memory = m, iterations = t, parallelism = p,
                        saltLength = of_nat (length salt),
                        keyLength = of_nat (length hash)\<rparr>, salt, hash))))))"

definition ComparePasswordWithHash :: "kdf \<Rightarrow> string \<Rightarrow> string \<Rightarrow> (error + bool) result" where
  "ComparePasswordWithHash k encodedHash password =
     (case decodeHash encodedHash of
        Inl err \<Rightarrow> Return (Inl err)
      | Inr (p, salt, hash) \<Rightarrow>
          (case IDKey k (bytesOf password) salt (iterations p) (memory p) (parallelism p)
                  (keyLength p) of
             Panic m \<Rightarrow> Panic m
           | Return otherHash \<Rightarrow>
               Return (Inr (ConstantTimeCompare hash otherHash = 1))))"

section \<open>Attempt tracker\<close>

text \<open>
  Modelled from the spec: \<open>umUtils.HasMoreAttemptsRecently\<close> and
  \<open>umUtils.RemoveAttemptsOlderThan\<close> (package \<open>pkg/user-management/utils\<close>) are not among
  the reviewed files.  The spec: \<open>hasExceeded\<close> counts the entries with timestamp
  \<open>\<ge> now - window\<close> and is true iff the count is \<open>\<ge> maxAllowed\<close>; \<open>prune\<close> drops the
  entries older than the window.  The clock reading is the argument \<open>now\<close>.
\<close>

definition HasMoreAttemptsRecently :: "int \<Rightarrow> int list \<Rightarrow> int \<Rightarrow> int \<Rightarrow> bool" where
  "HasMoreAttemptsRecently now attempts maxAllowed window =
     (int (length (filter (\<lambda>t. now - window \<le> t) attempts)) \<ge> maxAllowed)"

definition RemoveAttemptsOlderThan :: "int \<Rightarrow> int list \<Rightarrow> int \<Rightarrow> int list" where
  "RemoveAttemptsOlderThan now attempts window = filter (\<lambda>t. now - window \<le> t) attempts"

section \<open>Refresh token ledger\<close>

text \<open>
  Modelled from the spec: \<open>FindAndUpdateRenewToken\<close> (package
  \<open>pkg/db/participant-user\<close>) is not among the reviewed files.  The spec keeps, for each
  pair of instance and user, a record with the current token and the staged next token,
  and describes \<open>rotate\<close> (here \<open>rotateToken\<close>) by three cases: the supplied token equals the current one (the
  staged next, or the candidate when nothing is staged, is promoted and served, and a
  fresh next is staged: the candidate is the only fresh token the operation is given, so
  it is staged when it was not itself promoted); else it equals the staged next (that
  token is served again, nothing changes); else it is a replay (nothing is served).
  The result is the served token, the replay flag and the ledger afterwards.
\<close>

record RefreshTokenRecord =
  current :: string
  staged :: "string option"

type_synonym Ledger = "string \<times> string \<Rightarrow> RefreshTokenRecord option"

definition rotateToken ::
  "Ledger \<Rightarrow> string \<Rightarrow> string \<Rightarrow> string \<Rightarrow> string \<Rightarrow> (string option \<times> bool) \<times> Ledger" where
  "rotateToken ledger instanceID userID suppliedToken candidateNextToken =
     (case ledger (instanceID, userID) of
        None \<Rightarrow> ((None, True), ledger)
      | Some r \<Rightarrow>
          if suppliedToken = current r then
            (case staged r of
               Some n \<Rightarrow>
                 ((Some n, False),
                  ledger((instanceID, userID) \<mapsto> \<lparr>current = n, staged = Some candidateNextToken\<rparr>))
             | None \<Rightarrow>
                 ((Some candidateNextToken, False),
                  ledger((instanceID, userID) \<mapsto> \<lparr>current = candidateNextToken, staged = None\<rparr>)))
          else if staged r = Some suppliedToken then ((Some suppliedToken, False), ledger)
          else ((None, True), ledger))"

text \<open>
  What the handler sees of it: an error when the call is a replay, otherwise a renew
  token record of which it reads \<open>NextToken\<close>, the served token.
\<close>

record RenewToken =
  NextToken :: string

definition FindAndUpdateRenewToken ::
  "Ledger \<Rightarrow> string \<Rightarrow> string \<Rightarrow> string \<Rightarrow> string \<Rightarrow> (error + RenewToken) \<times> Ledger" where
  "FindAndUpdateRenewToken ledger instanceID userID renewToken nextToken =
     (case rotateToken ledger instanceID userID renewToken nextToken of
        ((Some served, False), ledger') \<Rightarrow> (Inr \<lparr>NextToken = served\<rparr>, ledger')
      | (_, ledger') \<Rightarrow> (Inl (StoreError ''renew token not found''), ledger'))"

section \<open>The authentication handlers (package apihandlers)\<close>

subsection \<open>Requests, responses, effects\<close>

definition loginFailedAttemptWindow :: int where
  "loginFailedAttemptWindow = 5 * 60"

definition allowedPasswordAttempts :: int where
  "allowedPasswordAttempts = 10"

definition signupRateLimitWindow :: int where
  "signupRateLimitWindow = 5 * 60"


definition ACCOUNT_TYPE_EMAIL :: string where
  "ACCOUNT_TYPE_EMAIL = ''email''"

datatype TokenPurpose =
    TOKEN_PURPOSE_CONTACT_VERIFICATION
  | TOKEN_PURPOSE_INVITATION
  | TOKEN_PURPOSE_PASSWORD_RESET

datatype EmailType = EMAIL_TYPE_REGISTRATION | EMAIL_TYPE_VERIFY_EMAIL

record LoginWithEmailReq =
  login_Email :: string
  login_Password :: string
  login_InstanceID :: string

record SignupWithEmailReq =
  signup_Email :: string
  signup_Password :: string
  signup_InstanceID :: string
  signup_InfoCheck :: string
  signup_PreferredLanguage :: string

record RefreshTokenReq =
  RefreshToken :: string

text \<open>The validated session claims the middleware hands to a handler.\<close>

record ParticipantUserClaims =
  claims_InstanceID :: string
  Subject :: string
  LastOTPProvided :: "(string \<times> int) list"

record TempTokenInfos =
  tt_InstanceID :: string
  tt_UserID :: string
  Info :: "string \<rightharpoonup> string"

record JwtArgs =
  jwt_ttl :: int
  jwt_userID :: string
  jwt_instanceID :: string
  jwt_mainProfileID :: string
  jwt_accountConfirmed :: bool
  jwt_otherProfileIDs :: "string list"
  jwt_signKey :: string
  jwt_lastOTPProvided :: "(string \<times> int) list"

record TokenResponse =
  resp_accessToken :: string
  resp_refreshToken :: string
  resp_expiresIn :: int
  resp_selectedProfile :: string
  resp_lastOTP :: "(string \<times> int) list option"

datatype Body =
    ErrorBody string
  | BindErrorBody error
  | MessageBody string
  | TokenUserBody TokenResponse User
  | UserBody User

record Response =
  status :: nat
  body :: Body

datatype Outcome = Responded Response | Panicked string

text \<open>
  What a handler does besides answering: the calls that write to a store, the password
  comparison and hashing, the generation of session and renew tokens, the randomized
  delay and the email dispatch started in a goroutine, in the order in which they happen.
\<close>

datatype Effect =
    SaveFailedLoginAttemptCall string string
  | RandomWait nat
  | ComparePasswordWithHashCall
  | HashPasswordCall
  | GenerateNewParticipantUserTokenCall
  | GenerateUniqueTokenStringCall
  | CreateRenewTokenCall string string string
  | FindAndUpdateRenewTokenCall string string string string
  | UpdateUserCall string string int
  | ReplaceUserCall string User
  | AddUserCall string User
  | DeleteAllTempTokenForUserCall string string TokenPurpose
  | ValidateTempTokenCall string
  | SendEmailVerification string string string string int EmailType

text \<open>
  The collaborators of the handlers that are not among the reviewed files: the helper
  functions of \<open>umUtils\<close>, the user store, the token services and the configuration of
  \<open>HttpEndpoints\<close>.  Each is a parameter; a store call yields the result the store hands
  back.
\<close>

record Env =
  isInstanceAllowed :: "string \<Rightarrow> bool"
  SanitizeEmail :: "string \<Rightarrow> string"
  CheckEmailFormat :: "string \<Rightarrow> bool"
  CheckPasswordFormat :: "string \<Rightarrow> bool"
  CheckLanguageCode :: "string \<Rightarrow> bool"
  GetMainAndOtherProfiles :: "User \<Rightarrow> string \<times> string list"
  InitNewEmailUser :: "string \<Rightarrow> string \<Rightarrow> string \<Rightarrow> User"
  ObjectIDFromHex :: "string \<Rightarrow> string"
  GetUserByAccountID :: "string \<Rightarrow> string \<Rightarrow> error + User"
  GetUser :: "string \<Rightarrow> string \<Rightarrow> error + User"
  ReplaceUser :: "string \<Rightarrow> User \<Rightarrow> error + User"
  UpdateUser :: "string \<Rightarrow> string \<Rightarrow> int \<Rightarrow> error option"
  AddUser :: "string \<Rightarrow> User \<Rightarrow> error + string"
  CountRecentlyCreatedUsers :: "string \<Rightarrow> int \<Rightarrow> error + int"
  CreateRenewToken :: "string \<Rightarrow> string \<Rightarrow> string \<Rightarrow> int \<Rightarrow> error option"
  validateTempToken :: "string \<Rightarrow> TokenPurpose list \<Rightarrow> error + TempTokenInfos"
  GenerateNewParticipantUserToken :: "JwtArgs \<Rightarrow> error + string"
  GenerateUniqueTokenString :: "error + string"
  maxNewUsersPer5Minute :: int
  ttl_AccessToken :: int
  ttl_EmailContactVerificationToken :: int
  tokenSignKey :: string
  argonParams :: ArgonParams
  argonKdf :: kdf
  randSource :: RandSource

definition errorResponse :: "nat \<Rightarrow> string \<Rightarrow> Outcome" where
  "errorResponse st msg = Responded \<lparr>status = st, body = ErrorBody msg\<rparr>"

definition clearSecrets :: "User \<Rightarrow> User" where
  "clearSecrets user =
     user\<lparr>Account := (Account user)\<lparr>Password := [], VerificationCode := emptyVerificationCode\<rparr>\<rparr>"

definition tokenAnswer ::
  "Env \<Rightarrow> string \<Rightarrow> string \<Rightarrow> string \<Rightarrow> (string \<times> int) list option \<Rightarrow> User \<Rightarrow> Outcome" where
  "tokenAnswer h token renewToken mainProfileID otp user =
     Responded \<lparr>status = 200,
       body = TokenUserBody
         \<lparr>resp_accessToken = token, resp_refreshToken = renewToken,
          resp_expiresIn = ttl_AccessToken h, resp_selectedProfile = mainProfileID,
          resp_lastOTP = otp\<rparr> user\<rparr>"

definition jwtArgs ::
  "Env \<Rightarrow> string \<Rightarrow> string \<Rightarrow> string \<Rightarrow> bool \<Rightarrow> string list \<Rightarrow> (string \<times> int) list \<Rightarrow> JwtArgs" where
  "jwtArgs h userID instanceID mainProfileID confirmed otherProfileIDs otp =
     \<lparr>jwt_ttl = ttl_AccessToken h, jwt_userID = userID, jwt_instanceID = instanceID,
      jwt_mainProfileID = mainProfileID, jwt_accountConfirmed = confirmed,
      jwt_otherProfileIDs = otherProfileIDs, jwt_signKey = tokenSignKey h,
      jwt_lastOTPProvided = otp\<rparr>"

subsection \<open>loginWithEmail\<close>

text \<open>
  All clock readings of one request are the argument \<open>now\<close>.  \<open>loginSucceeded\<close> is the
  handler from the generation of the session token on; \<open>effs\<close> are the effects so far.
\<close>

definition loginSucceeded ::
  "Env \<Rightarrow> int \<Rightarrow> LoginWithEmailReq \<Rightarrow> User \<Rightarrow> Effect list \<Rightarrow> Outcome \<times> Effect list" where
  "loginSucceeded h now req user effs =
     (let (mainProfileID, otherProfileIDs) = GetMainAndOtherProfiles h user;
          effsJ = effs @ [GenerateNewParticipantUserTokenCall];
          effsG = effsJ @ [GenerateUniqueTokenStringCall]
      in case GenerateNewParticipantUserToken h
                (jwtArgs h (ID user) (login_InstanceID req) mainProfileID
                   (AccountConfirmedAt (Account user) > 0) otherProfileIDs []) of
           Inl err \<Rightarrow> (errorResponse 500 ''internal server error'', effsJ)
         | Inr token \<Rightarrow>
             (case GenerateUniqueTokenString h of
                Inl err \<Rightarrow> (errorResponse 500 ''internal server error'', effsG)
              | Inr renewToken \<Rightarrow>
                  (let effs1 = effsG @ [CreateRenewTokenCall (login_InstanceID req) (ID user) renewToken]
                   in case CreateRenewToken h (login_InstanceID req) (ID user) renewToken 0 of
                        Some err \<Rightarrow> (errorResponse 500 ''internal server error'', effs1)
                      | None \<Rightarrow>
                          (let user1 = user
                                 \<lparr>Timestamps := (Timestamps user)
                                    \<lparr>LastLogin := now, MarkedForDeletion := 0\<rparr>,
                                  Account := (Account user)
                                    \<lparr>VerificationCode := emptyVerificationCode,
                                     FailedLoginAttempts :=
                                       RemoveAttemptsOlderThan now
                                         (FailedLoginAttempts (Account user)) 3600,
                                     PasswordResetTriggers :=
                                       RemoveAttemptsOlderThan now
                                         (PasswordResetTriggers (Account user)) 7200\<rparr>\<rparr>;
                               effs2 = effs1 @ [ReplaceUserCall (login_InstanceID req) user1]
                           in case ReplaceUser h (login_InstanceID req) user1 of
                                Inl err \<Rightarrow> (errorResponse 500 ''internal server error'', effs2)
                              | Inr user2 \<Rightarrow>
                                  (tokenAnswer h token renewToken mainProfileID None
                                     (clearSecrets user2),
                                   effs2 @ [DeleteAllTempTokenForUserCall (login_InstanceID req)
                                              (ID user2) TOKEN_PURPOSE_PASSWORD_RESET])))))"

definition loginWithEmail ::
  "Env \<Rightarrow> int \<Rightarrow> error + LoginWithEmailReq \<Rightarrow> Outcome \<times> Effect list" where
  "loginWithEmail h now bound =
     (case bound of
        Inl err \<Rightarrow> (Responded \<lparr>status = 400, body = BindErrorBody err\<rparr>, [])
      | Inr req0 \<Rightarrow>
          if login_Email req0 = [] \<or> login_Password req0 = [] \<or> login_InstanceID req0 = []
          then (errorResponse 400 ''missing required fields'', [])
          else if \<not> isInstanceAllowed h (login_InstanceID req0)
          then (errorResponse 401 ''invalid instance id'', [])
          else
            (let req = req0\<lparr>login_Email := SanitizeEmail h (login_Email req0)\<rparr>
             in case GetUserByAccountID h (login_InstanceID req) (login_Email req) of
                  Inl err \<Rightarrow> (errorResponse 401 ''invalid email or password'', [])
                | Inr user \<Rightarrow>
                    if HasMoreAttemptsRecently now (FailedLoginAttempts (Account user))
                         allowedPasswordAttempts loginFailedAttemptWindow
                    then (errorResponse 401 ''invalid email or password'',
                          [SaveFailedLoginAttemptCall (login_InstanceID req) (ID user),
                           RandomWait 5])
                    else
                      (case ComparePasswordWithHash (argonKdf h) (Password (Account user))
                              (login_Password req) of
                         Panic m \<Rightarrow> (Panicked m, [ComparePasswordWithHashCall])
                       | Return r \<Rightarrow>
                           if r \<noteq> Inr True
                           then (errorResponse 401 ''invalid email or password'',
                                 [ComparePasswordWithHashCall,
                                  SaveFailedLoginAttemptCall (login_InstanceID req) (ID user),
                                  RandomWait 10])
                           else loginSucceeded h now req user [ComparePasswordWithHashCall])))"

subsection \<open>signupWithEmail\<close>

definition signupCreated ::
  "Env \<Rightarrow> SignupWithEmailReq \<Rightarrow> User \<Rightarrow> Effect list \<Rightarrow> Outcome \<times> Effect list" where
  "signupCreated h req newUser effs =
     (let effs1 = effs @ [SendEmailVerification (ID newUser) (signup_InstanceID req)
                            (signup_Email req) (signup_PreferredLanguage req)
                            (ttl_EmailContactVerificationToken h) EMAIL_TYPE_REGISTRATION];
          (mainProfileID, otherProfileIDs) = GetMainAndOtherProfiles h newUser;
          effsJ = effs1 @ [GenerateNewParticipantUserTokenCall];
          effsG = effsJ @ [GenerateUniqueTokenStringCall]
      in case GenerateNewParticipantUserToken h
                (jwtArgs h (ID newUser) (signup_InstanceID req) mainProfileID
                   (AccountConfirmedAt (Account newUser) > 0) otherProfileIDs []) of
           Inl err \<Rightarrow> (errorResponse 500 ''internal server error'', effsJ)
         | Inr token \<Rightarrow>
             (case GenerateUniqueTokenString h of
                Inl err \<Rightarrow> (errorResponse 500 ''internal server error'', effsG)
              | Inr renewToken \<Rightarrow>
                  (let effs2 = effsG @ [CreateRenewTokenCall (signup_InstanceID req) (ID newUser)
                                          renewToken]
                   in case CreateRenewToken h (signup_InstanceID req) (ID newUser) renewToken 0 of
                        Some err \<Rightarrow> (errorResponse 500 ''internal server error'', effs2)
                      | None \<Rightarrow>
                          (tokenAnswer h token renewToken mainProfileID None
                             (clearSecrets newUser), effs2))))"

definition signupWithEmail ::
  "Env \<Rightarrow> error + SignupWithEmailReq \<Rightarrow> Outcome \<times> Effect list" where
  "signupWithEmail h bound =
     (case bound of
        Inl err \<Rightarrow> (Responded \<lparr>status = 400, body = BindErrorBody err\<rparr>, [])
      | Inr req0 \<Rightarrow>
          if signup_Email req0 = [] \<or> signup_Password req0 = [] \<or> signup_InstanceID req0 = []
          then (errorResponse 400 ''missing required fields'', [])
          else if signup_InfoCheck req0 \<noteq> []
          then (errorResponse 401 ''invalid request'', [RandomWait 5])
          else if \<not> isInstanceAllowed h (signup_InstanceID req0)
          then (errorResponse 401 ''invalid instance id'', [])
          else
            (let req = req0\<lparr>signup_Email := SanitizeEmail h (signup_Email req0)\<rparr>
             in if \<not> CheckEmailFormat h (signup_Email req)
                then (errorResponse 400 ''invalid email format'', [])
                else if \<not> CheckPasswordFormat h (signup_Password req)
                then (errorResponse 400 ''invalid password format'', [])
                else if \<not> CheckLanguageCode h (signup_PreferredLanguage req)
                then (errorResponse 400 ''invalid preferred language code'', [])
                else
                  (case CountRecentlyCreatedUsers h (signup_InstanceID req) signupRateLimitWindow of
                     Inl err \<Rightarrow> (errorResponse 500 ''internal server error'', [])
                   | Inr newUserCount \<Rightarrow>
                       if newUserCount \<ge> maxNewUsersPer5Minute h
                       then (errorResponse 429 ''try again later'', [RandomWait 5])
                       else
                         (case HashPassword (argonParams h) (argonKdf h) (randSource h)
                                 (signup_Password req) of
                            Panic m \<Rightarrow> (Panicked m, [HashPasswordCall])
                          | Return (Inl err) \<Rightarrow>
                              (errorResponse 500 ''internal server error'', [HashPasswordCall])
                          | Return (Inr password) \<Rightarrow>
                              (let newUser = InitNewEmailUser h (signup_Email req) password
                                               (signup_PreferredLanguage req);
                                   effs = [HashPasswordCall,
                                           AddUserCall (signup_InstanceID req) newUser]
                               in case AddUser h (signup_InstanceID req) newUser of
                                    Inl err \<Rightarrow>
                                      (errorResponse 500 ''internal server error'',
                                       effs @ [RandomWait 5])
                                  | Inr newID \<Rightarrow>
                                      signupCreated h req
                                        (newUser\<lparr>ID := ObjectIDFromHex h newID\<rparr>) effs)))))"

subsection \<open>refreshToken\<close>

definition refreshServed ::
  "Env \<Rightarrow> int \<Rightarrow> ParticipantUserClaims \<Rightarrow> User \<Rightarrow> string \<Rightarrow> Effect list
     \<Rightarrow> Outcome \<times> Effect list" where
  "refreshServed h now token user newRenewToken effs =
     (let effs1 = effs @ [UpdateUserCall (claims_InstanceID token) (Subject token) now]
      in case UpdateUser h (claims_InstanceID token) (Subject token) now of
           Some err \<Rightarrow> (errorResponse 500 ''internal server error'', effs1)
         | None \<Rightarrow>
             (let (mainProfileID, otherProfileIDs) = GetMainAndOtherProfiles h user;
                  effs2 = effs1 @ [GenerateNewParticipantUserTokenCall]
              in case GenerateNewParticipantUserToken h
                        (jwtArgs h (ID user) (claims_InstanceID token) mainProfileID
                           (AccountConfirmedAt (Account user) > 0) otherProfileIDs
                           (LastOTPProvided token)) of
                   Inl err \<Rightarrow> (errorResponse 500 ''internal server error'', effs2)
                 | Inr newJwt \<Rightarrow>
                     (tokenAnswer h newJwt newRenewToken mainProfileID
                        (Some (LastOTPProvided token)) (clearSecrets user), effs2)))"

definition refreshToken ::
  "Env \<Rightarrow> int \<Rightarrow> Ledger \<Rightarrow> ParticipantUserClaims \<Rightarrow> error + RefreshTokenReq
     \<Rightarrow> (Outcome \<times> Effect list) \<times> Ledger" where
  "refreshToken h now ledger token bound =
     (case bound of
        Inl err \<Rightarrow> ((Responded \<lparr>status = 400, body = BindErrorBody err\<rparr>, []), ledger)
      | Inr req \<Rightarrow>
          (case GetUser h (claims_InstanceID token) (Subject token) of
             Inl err \<Rightarrow> ((errorResponse 401 ''invalid token'', []), ledger)
           | Inr user \<Rightarrow>
               (case GenerateUniqueTokenString h of
                  Inl err \<Rightarrow>
                    ((errorResponse 500 ''internal server error'',
                      [GenerateUniqueTokenStringCall]), ledger)
                | Inr newRenewToken \<Rightarrow>
                    (let effs = [GenerateUniqueTokenStringCall,
                                 FindAndUpdateRenewTokenCall (claims_InstanceID token)
                                   (Subject token) (RefreshToken req) newRenewToken]
                     in case FindAndUpdateRenewToken ledger (claims_InstanceID token)
                               (Subject token) (RefreshToken req) newRenewToken of
                          (Inl err, ledger1) \<Rightarrow>
                            ((errorResponse 500 ''internal server error'', effs), ledger1)
                        | (Inr rt, ledger1) \<Rightarrow>
                            if NextToken rt = newRenewToken
                            then
                              (let effs1 = effs @ [CreateRenewTokenCall (claims_InstanceID token)
                                                     (Subject token) newRenewToken]
                               in case CreateRenewToken h (claims_InstanceID token)
                                         (Subject token) newRenewToken 0 of
                                    Some err \<Rightarrow>
                                      ((errorResponse 500 ''internal server error'', effs1),
                                       ledger1)
                                  | None \<Rightarrow>
                                      (refreshServed h now token user newRenewToken effs1,
                                       ledger1))
                            else (refreshServed h now token user (NextToken rt) effs,
                                  ledger1)))))"

subsection \<open>resendEmailVerification\<close>


subsection \<open>verifyEmail\<close>

text \<open>Reading a Go map at a missing key gives the empty string.\<close>

definition mapIndex :: "(string \<rightharpoonup> string) \<Rightarrow> string \<Rightarrow> string" where
  "mapIndex m key = (case m key of None \<Rightarrow> [] | Some v \<Rightarrow> v)"

definition verifyEmail :: "Env \<Rightarrow> int \<Rightarrow> error + string \<Rightarrow> Outcome \<times> Effect list" where
  "verifyEmail h now bound =
     (case bound of
        Inl err \<Rightarrow> (errorResponse 400 ''cannot bind request'', [])
      | Inr reqToken \<Rightarrow>
          (let effs = [ValidateTempTokenCall reqToken]
           in case validateTempToken h reqToken
                     [TOKEN_PURPOSE_CONTACT_VERIFICATION, TOKEN_PURPOSE_INVITATION] of
                Inl err \<Rightarrow> (errorResponse 400 ''invalid token'', effs)
              | Inr tokenInfos \<Rightarrow>
                  (case GetUser h (tt_InstanceID tokenInfos) (tt_UserID tokenInfos) of
                     Inl err \<Rightarrow> (errorResponse 500 ''failed to get user'', effs)
                   | Inr user \<Rightarrow>
                       if AccountID (Account user) \<noteq> mapIndex (Info tokenInfos) ''email''
                       then (errorResponse 400 ''user does not match token'', effs)
                       else if Info tokenInfos ''type'' = None \<or> Info tokenInfos ''email'' = None
                       then (errorResponse 400 ''missing type or email in token infos'', effs)
                       else
                         (let cType = mapIndex (Info tokenInfos) ''type'';
                              email = mapIndex (Info tokenInfos) ''email''
                          in case ConfirmContactInfo now user cType email of
                               (Some err, _) \<Rightarrow>
                                 (errorResponse 500 ''failed to confirm contact info'', effs)
                             | (None, user1) \<Rightarrow>
                                 (let user2 =
                                        (if Type (Account user1) = ACCOUNT_TYPE_EMAIL
                                            \<and> AccountID (Account user1) = email
                                         then user1\<lparr>Account := (Account user1)
                                                \<lparr>AccountConfirmedAt := now\<rparr>\<rparr>
                                         else user1);
                                      effs1 = effs @ [ReplaceUserCall (tt_InstanceID tokenInfos)
                                                        user2]
                                  in case ReplaceUser h (tt_InstanceID tokenInfos) user2 of
                                       Inl err \<Rightarrow>
                                         (errorResponse 500 ''failed to update user'', effs1)
                                     | Inr _ \<Rightarrow>
                                         (Responded \<lparr>status = 200,
                                            body = UserBody
                                              (user2\<lparr>Account := (Account user2)
                                                 \<lparr>Password := []\<rparr>\<rparr>)\<rparr>,
                                          effs1))))))"

subsection \<open>What a successful answer shows of the account\<close>

text \<open>
  \<open>secretsCleared\<close>: the answer carries tokens and a user whose password hash and pending
  verification code are blank.  \<open>passwordCleared\<close>: the answer carries a user whose
  password hash is blank.
\<close>

definition secretsCleared :: "Response \<Rightarrow> bool" where
  "secretsCleared r =
     (case body r of
        TokenUserBody t u \<Rightarrow>
          Password (Account u) = [] \<and> VerificationCode (Account u) = emptyVerificationCode
      | _ \<Rightarrow> False)"

definition passwordCleared :: "Response \<Rightarrow> bool" where
  "passwordCleared r = (case body r of UserBody u \<Rightarrow> Password (Account u) = [] | _ \<Rightarrow> False)"

section \<open>Concrete values\<close>


definition exampleTimestamps :: Timestamps where
  "exampleTimestamps = \<lparr>LastTokenRefresh = 0, LastLogin = 0, tsCreatedAt = 0, UpdatedAt = 0,
     LastPasswordChange = 0, ReminderToConfirmSentAt = 0, MarkedForDeletion = 0\<rparr>"


text \<open>A key derivation and a random source to run the password hashing on.\<close>

definition exampleKdf :: kdf where
  "exampleKdf password salt time mem threads keyLen i = of_nat i"

definition exampleRand :: RandSource where
  "exampleRand = \<lparr>randError = None, randByte = (\<lambda>i. of_nat (2 * i))\<rparr>"

definition exampleHash :: string where
  "exampleHash = ''$argon2id$v=19$m=65536,t=4,p=1$AAIEBggKDA4QEhQWGBocHg$AAECAwQFBgcICQoLDA0ODxAREhMUFRYXGBkaGxwdHh8''"

text \<open>An encoded hash whose parameter field asks for zero passes.\<close>

definition zeroPassesHash :: string where
  "zeroPassesHash = ''$argon2id$v=19$m=65536,t=0,p=1$c2FsdA$aGFzaA''"

text \<open>
  A stored user: the password hash is \<open>exampleHash\<close> (the password \<open>pw\<close>), a verification
  code is pending, the failed-login list is a parameter, and the email contact was sent a
  verification message at time \<open>99990\<close>.
\<close>

definition storedUser :: "int list \<Rightarrow> User" where
  "storedUser attempts =
     \<lparr>ID = ''u1'',
      Account = \<lparr>Type = ''email'', AccountID = ''a@b.c'', AccountConfirmedAt = 0,
        Password = exampleHash, PreferredLanguage = ''en'',
        VerificationCode = \<lparr>Code = ''123456'', Attempts = 0, CreatedAt = 1, ExpiresAt = 2\<rparr>,
        FailedLoginAttempts = attempts, PasswordResetTriggers = []\<rparr>,
      Timestamps = exampleTimestamps,
      Profiles = [],
      ContactPreferences = \<lparr>SendNewsletterTo = []\<rparr>,
      ContactInfos = [\<lparr>ciID = ''c1'', ciType = ''email'', ConfirmedAt = 0,
        ConfirmationLinkSentAt = 99990, Email = ''a@b.c'', Phone = []\<rparr>]\<rparr>"

text \<open>
  Collaborators that all succeed, around a store that holds the one user \<open>u\<close> in the
  instance \<open>inst\<close>; \<open>cap\<close> is the configured cap on new users, of which the store counts 3.
\<close>

definition exampleEnv :: "User \<Rightarrow> int \<Rightarrow> Env" where
  "exampleEnv u cap =
     \<lparr>isInstanceAllowed = (\<lambda>i. i = ''inst''),
      SanitizeEmail = (\<lambda>e. e),
      CheckEmailFormat = (\<lambda>e. True),
      CheckPasswordFormat = (\<lambda>p. True),
      CheckLanguageCode = (\<lambda>l. True),
      GetMainAndOtherProfiles = (\<lambda>x. (''p1'', [])),
      InitNewEmailUser = (\<lambda>email password lang.
        u\<lparr>ID := [], Account := (Account u)\<lparr>AccountID := email, Password := password,
                                          PreferredLanguage := lang\<rparr>\<rparr>),
      ObjectIDFromHex = (\<lambda>x. x),
      GetUserByAccountID = (\<lambda>i e. if i = ''inst'' \<and> e = ''a@b.c'' then Inr u
                                 else Inl (StoreError ''not found'')),
      GetUser = (\<lambda>i x. if i = ''inst'' \<and> x = ''u1'' then Inr u
                      else Inl (StoreError ''not found'')),
      ReplaceUser = (\<lambda>i x. Inr x),
      UpdateUser = (\<lambda>i x t. None),
      AddUser = (\<lambda>i x. Inr ''u2''),
      CountRecentlyCreatedUsers = (\<lambda>i w. Inr 3),
      CreateRenewToken = (\<lambda>i x t ttl. None),
      validateTempToken = (\<lambda>t ps. if t = ''tok''
        then Inr \<lparr>tt_InstanceID = ''inst'', tt_UserID = ''u1'',
                  Info = [''type'' \<mapsto> ''email'', ''email'' \<mapsto> ''a@b.c'']\<rparr>
        else Inl (StoreError ''not found'')),
      GenerateNewParticipantUserToken = (\<lambda>a. Inr ''jwt''),
      GenerateUniqueTokenString = Inr ''fresh'',
      maxNewUsersPer5Minute = cap,
      ttl_AccessToken = 300,
      ttl_EmailContactVerificationToken = 3600,
      tokenSignKey = ''key'',
      argonParams = defaultArgonParams,
      argonKdf = exampleKdf,
      randSource = exampleRand\<rparr>"

definition exampleLoginReq :: LoginWithEmailReq where
  "exampleLoginReq = \<lparr>login_Email = ''a@b.c'', login_Password = ''pw'', login_InstanceID = ''inst''\<rparr>"

definition exampleSignupReq :: SignupWithEmailReq where
  "exampleSignupReq = \<lparr>signup_Email = ''n@b.c'', signup_Password = ''pw'',
     signup_InstanceID = ''inst'', signup_InfoCheck = [], signup_PreferredLanguage = ''en''\<rparr>"

definition exampleClaims :: ParticipantUserClaims where
  "exampleClaims = \<lparr>claims_InstanceID = ''inst'', Subject = ''u1'', LastOTPProvided = []\<rparr>"

text \<open>A ledger holding, for the user, the current token \<open>t0\<close> and the staged token \<open>t1\<close>.\<close>

definition exampleLedger :: Ledger where
  "exampleLedger = [(''inst'', ''u1'') \<mapsto> \<lparr>current = ''t0'', staged = Some ''t1''\<rparr>]"

text \<open>The user that a login at time \<open>100000\<close> writes back for \<open>storedUser [99000]\<close>.\<close>

definition userAfterLogin :: User where
  "userAfterLogin =
     (storedUser [99000])
       \<lparr>Timestamps := exampleTimestamps\<lparr>LastLogin := 100000, MarkedForDeletion := 0\<rparr>,
        Account := (Account (storedUser [99000]))\<lparr>VerificationCode := emptyVerificationCode\<rparr>\<rparr>"

text \<open>
  Failed-login lists read at time \<open>100000\<close>, when the window of 300 seconds starts at
  \<open>99700\<close>: ten attempts inside the window; nine inside and three before it; twelve
  before it.
\<close>

definition tenRecent :: "int list" where
  "tenRecent = [99700, 99710, 99720, 99730, 99740, 99750, 99760, 99770, 99780, 99790]"

definition nineRecent :: "int list" where
  "nineRecent = [100, 200, 99699, 99710, 99720, 99730, 99740, 99750, 99760, 99770, 99780, 99790]"

definition twelveOld :: "int list" where
  "twelveOld = [10, 20, 30, 40, 50, 60, 70, 80, 90, 100, 110, 99699]"

section \<open>Removal of a contact info and the contact preferences\<close>








section \<open>Splitting, decimal rendering and scanning\<close>

lemma splitOn_ne: "splitOn sep xs \<noteq> []"
  by (induction xs) (auto split: list.splits)

lemma splitOn_nosep: "sep \<notin> set xs \<Longrightarrow> splitOn sep xs = [xs]"
  by (induction xs) (auto split: list.splits)

lemma splitOn_append: "sep \<notin> set xs \<Longrightarrow> splitOn sep (xs @ sep # rest) = xs # splitOn sep rest"
  by (induction xs) (auto split: list.splits)

lemma digit_cases:
  "d < (10::nat) \<Longrightarrow>
     d = 0 \<or> d = 1 \<or> d = 2 \<or> d = 3 \<or> d = 4 \<or> d = 5 \<or> d = 6 \<or> d = 7 \<or> d = 8 \<or> d = 9"
  by arith

lemma digitVal_digitChar: "d < 10 \<Longrightarrow> digitVal (digitChar d) = Some d"
  using digit_cases [of d] by (auto simp: digitVal_def digitChar_def)

lemma parseDigits_append:
  "parseDigits acc (xs @ ys) = (case parseDigits acc xs of None \<Rightarrow> None | Some v \<Rightarrow> parseDigits v ys)"
  by (induction xs arbitrary: acc) (auto split: option.splits)

lemma parseDigits_formatUint: "parseDigits 0 (formatUint n) = Some n"
proof (induction n rule: formatUint.induct)
  case (1 n)
  show ?case
  proof (cases "n < 10")
    case True
    then show ?thesis by (subst formatUint.simps) (simp add: digitVal_digitChar)
  next
    case False
    with 1 have "parseDigits 0 (formatUint (n div 10)) = Some (n div 10)" by simp
    with False show ?thesis
      by (subst formatUint.simps) (simp add: parseDigits_append digitVal_digitChar)
  qed
qed

lemma digitChar_cases: "d < 10 \<Longrightarrow> digitChar d \<in> set ''0123456789''"
  using digit_cases [of d] by (auto simp: digitChar_def)

lemma isNumChar_digitChar: "d < 10 \<Longrightarrow> isNumChar (digitChar d)"
  using digitChar_cases [of d] by (auto simp: isNumChar_def)

lemma formatUint_chars: "set (formatUint n) \<subseteq> set ''0123456789''"
proof (induction n rule: formatUint.induct)
  case (1 n)
  show ?case
  proof (cases "n < 10")
    case True
    then show ?thesis
      using digitChar_cases [of n] by (subst formatUint.simps) simp
  next
    case False
    with 1 have "set (formatUint (n div 10)) \<subseteq> set ''0123456789''" by simp
    moreover have "digitChar (n mod 10) \<in> set ''0123456789''"
      by (rule digitChar_cases) simp
    ultimately show ?thesis
      using False by (subst formatUint.simps) simp
  qed
qed

lemma formatUint_ne: "formatUint n \<noteq> []"
  by (subst formatUint.simps) simp

lemma formatUint_isNumChar: "c \<in> set (formatUint n) \<Longrightarrow> isNumChar c"
  using formatUint_chars [of n] by (auto simp: isNumChar_def)

lemma formatUint_not_space: "c \<in> set (formatUint n) \<Longrightarrow> \<not> isSpace c \<and> c \<noteq> CHR 0x0A \<and> c \<noteq> CHR 0x0D \<and> c \<noteq> CHR ''$'' \<and> c \<noteq> CHR ''+'' \<and> c \<noteq> CHR ''-''"
  using formatUint_chars [of n] by (auto simp: isSpace_def)

lemma SkipSpace_formatUint: "SkipSpace (formatUint n @ rest) = Inr (formatUint n @ rest)"
proof (cases "formatUint n")
  case Nil
  then show ?thesis by (simp add: formatUint_ne)
next
  case (Cons c cs)
  then have "c \<in> set (formatUint n)" by simp
  then have "\<not> isSpace c \<and> c \<noteq> CHR 0x0A \<and> c \<noteq> CHR 0x0D"
    using formatUint_not_space by blast
  with Cons show ?thesis by simp
qed

lemma scanNumber_formatUint:
  assumes "rest = [] \<or> \<not> isNumChar (hd rest)"
  shows "scanNumber (formatUint n @ rest) = Inr (formatUint n, rest)"
proof -
  have all: "\<forall>c \<in> set (formatUint n). isNumChar c"
    using formatUint_isNumChar by blast
  have tw: "takeWhile isNumChar (formatUint n @ rest) = formatUint n"
    using assms all by (cases rest) (simp_all add: takeWhile_append2 takeWhile_eq_all_conv [THEN iffD2])
  have dw: "dropWhile isNumChar (formatUint n @ rest) = rest"
    using assms all by (cases rest) (simp_all add: dropWhile_append2)
  obtain c cs where cs: "formatUint n = c # cs"
    using formatUint_ne [of n] by (cases "formatUint n") auto
  then have "isNumChar c" using all by simp
  with cs tw dw show ?thesis
    by (simp add: scanNumber_def)
qed

lemma scanUint_formatUint:
  assumes "rest = [] \<or> \<not> isNumChar (hd rest)" and "n < 2 ^ bitSize" and "bitSize \<le> 64"
  shows "scanUint bitSize (formatUint n @ rest) = Inr (n, rest)"
proof -
  have "(2::nat) ^ bitSize \<le> 2 ^ 64"
    by (rule power_increasing) (use assms(3) in simp_all)
  with assms(2) have "n < 2 ^ 64" by linarith
  then show ?thesis
    using assms(1,2)
    by (simp add: scanUint_def bindE_def SkipSpace_formatUint scanNumber_formatUint ParseUint_def
        parseDigits_formatUint formatUint_ne)
qed

lemma Sscanf_mtp_format:
  assumes "m < 2 ^ 32" "t < 2 ^ 32" "p < 2 ^ 8"
  shows "Sscanf_mtp (''m='' @ formatUint m @ '',t='' @ formatUint t @ '',p='' @ formatUint p)
          = Inr (of_nat m, of_nat t, of_nat p)"
proof -
  have 1: "scanUint 32 (formatUint m @ '',t='' @ formatUint t @ '',p='' @ formatUint p)
            = Inr (m, '',t='' @ formatUint t @ '',p='' @ formatUint p)"
    using assms by (intro scanUint_formatUint) (simp_all add: isNumChar_def)
  have 2: "scanUint 32 (formatUint t @ '',p='' @ formatUint p) = Inr (t, '',p='' @ formatUint p)"
    using assms by (intro scanUint_formatUint) (simp_all add: isNumChar_def)
  have 3: "scanUint 8 (formatUint p @ []) = Inr (p, [])"
    using assms by (intro scanUint_formatUint) simp_all
  show ?thesis
    using 1 2 3 SkipSpace_formatUint [of p "[]"]
    by (simp add: Sscanf_mtp_def bindE_def SkipSpace_formatUint)
qed

lemma Sscanf_v_Version: "Sscanf_v (''v='' @ formatInt argon2_Version) = Inr argon2_Version"
proof -
  have "formatInt argon2_Version = ''19''"
    by (simp add: formatInt_def argon2_Version_def formatUint.simps digitChar_def)
  then show ?thesis
    by (simp add: Sscanf_v_def scanInt_def bindE_def scanNumber_def isNumChar_def isSpace_def
        ParseInt_def ParseUint_def digitVal_def argon2_Version_def)
qed

section \<open>The raw base64 encoding and the constant-time comparison\<close>

lemma indexOf_nth: "distinct xs \<Longrightarrow> n < length xs \<Longrightarrow> indexOf (xs ! n) xs = Some n"
proof (induction xs arbitrary: n)
  case Nil
  then show ?case by simp
next
  case (Cons x xs)
  show ?case
  proof (cases n)
    case 0
    then show ?thesis by simp
  next
    case (Suc m)
    with Cons.prems have "m < length xs" "distinct xs" "xs ! m \<noteq> x"
      by auto
    with Cons.IH [of m] Suc show ?thesis by auto
  qed
qed

lemma distinct_encodeStd: "distinct encodeStd"
  by (simp add: encodeStd_def)

lemma length_encodeStd: "length encodeStd = 64"
  by (simp add: encodeStd_def)

lemma decodeMap_enc6: "decodeMap (enc6 n) = Some (n mod 64)"
  by (simp add: decodeMap_def enc6_def indexOf_nth distinct_encodeStd length_encodeStd)

lemma enc6_in: "enc6 n \<in> set encodeStd"
  by (simp add: enc6_def length_encodeStd)

lemma byte_of_nat_mod: "(of_nat (a * 256 + b) :: byte) = of_nat b"
  by (subst word_of_nat_eq_iff) (simp add: take_bit_eq_mod)

lemma byte_of_nat_unat: "(of_nat (unat (b :: byte)) :: byte) = b"
  by simp

lemma quantumValue4: "quantumValue [d0, d1, d2, d3] = d0 * 262144 + d1 * 4096 + d2 * 64 + d3"
  by (simp add: quantumValue_def)

lemma sextets:
  "(v::nat) < 16777216 \<Longrightarrow>
     (v div 262144 mod 64) * 262144 + (v div 4096 mod 64) * 4096 + (v div 64 mod 64) * 64 + v mod 64 = v"
proof -
  assume v: "v < 16777216"
  define a where "a = v div 64"
  define b where "b = a div 64"
  define c where "c = b div 64"
  have e1: "v div 4096 = b" "v div 262144 = c"
    by (simp_all add: a_def b_def c_def div_mult2_eq)
  have "c < 64" using v by (simp add: a_def b_def c_def div_mult2_eq)
  then have cm: "c mod 64 = c" by simp
  have s1: "64 * a + v mod 64 = v" by (simp add: a_def)
  have s2: "64 * b + a mod 64 = a" by (simp add: b_def)
  have s3: "64 * c + b mod 64 = b" by (simp add: c_def)
  have "c * 262144 + (b mod 64) * 4096 + (a mod 64) * 64 + v mod 64 = v"
    using s1 s2 s3 by linarith
  then show ?thesis
    by (simp only: e1 cm a_def [symmetric])
qed

lemma quantum4:
  fixes b0 b1 b2 :: byte
  defines "v \<equiv> unat b0 * 65536 + unat b1 * 256 + unat b2"
  shows "quantumBytes [v div 262144 mod 64, v div 4096 mod 64, v div 64 mod 64, v mod 64] = [b0, b1, b2]"
proof -
  have b: "unat b0 < 256" "unat b1 < 256" "unat b2 < 256"
    using unsigned_less [of b0] unsigned_less [of b1] unsigned_less [of b2] by simp_all
  then have "v < 16777216" by (simp add: v_def)
  then have qv: "quantumValue [v div 262144 mod 64, v div 4096 mod 64, v div 64 mod 64, v mod 64] = v"
    by (simp only: quantumValue4 sextets)
  have d1: "v div 65536 = unat b0" using b by (simp add: v_def)
  have d2: "v div 256 = unat b0 * 256 + unat b1" using b by (simp add: v_def)
  have "(of_nat (v div 256) :: byte) = b1"
    by (simp only: d2 byte_of_nat_mod byte_of_nat_unat)
  moreover have "(of_nat v :: byte) = b2"
  proof -
    have "v = (unat b0 * 256 + unat b1) * 256 + unat b2" by (simp add: v_def)
    then show ?thesis by (simp only: byte_of_nat_mod byte_of_nat_unat)
  qed
  moreover have "(of_nat (v div 65536) :: byte) = b0"
    by (simp only: d1 byte_of_nat_unat)
  ultimately show ?thesis
    by (simp add: quantumBytes_def qv)
qed

lemma quantum3:
  fixes b0 b1 :: byte
  defines "v \<equiv> unat b0 * 65536 + unat b1 * 256"
  shows "quantumBytes [v div 262144 mod 64, v div 4096 mod 64, v div 64 mod 64] = [b0, b1]"
proof -
  have b: "unat b0 < 256" "unat b1 < 256"
    using unsigned_less [of b0] unsigned_less [of b1] by simp_all
  then have lt: "v < 16777216" by (simp add: v_def)
  have "v = (unat b0 * 1024 + unat b1 * 4) * 64" by (simp add: v_def)
  then have m: "v mod 64 = 0" by simp
  have "quantumValue [v div 262144 mod 64, v div 4096 mod 64, v div 64 mod 64]
          = (v div 262144 mod 64) * 262144 + (v div 4096 mod 64) * 4096 + (v div 64 mod 64) * 64"
    by (simp add: quantumValue_def)
  also have "\<dots> = v"
    using sextets [OF lt] m by linarith
  finally have qv: "quantumValue [v div 262144 mod 64, v div 4096 mod 64, v div 64 mod 64] = v" .
  have d1: "v div 65536 = unat b0" using b by (simp add: v_def)
  have d2: "v div 256 = unat b0 * 256 + unat b1" using b by (simp add: v_def)
  have "(of_nat (v div 256) :: byte) = b1"
    by (simp only: d2 byte_of_nat_mod byte_of_nat_unat)
  moreover have "(of_nat (v div 65536) :: byte) = b0"
    by (simp only: d1 byte_of_nat_unat)
  ultimately show ?thesis
    by (simp add: quantumBytes_def qv)
qed

lemma quantum2:
  fixes b0 :: byte
  defines "v \<equiv> unat b0 * 65536"
  shows "quantumBytes [v div 262144 mod 64, v div 4096 mod 64] = [b0]"
proof -
  have b: "unat b0 < 256"
    using unsigned_less [of b0] by simp
  then have lt: "v < 16777216" by (simp add: v_def)
  have "v = (unat b0 * 1024) * 64" by (simp add: v_def)
  then have m: "v mod 64 = 0" by simp
  have "v div 64 = (unat b0 * 16) * 64" by (simp add: v_def)
  then have m2: "v div 64 mod 64 = 0" by simp
  have "quantumValue [v div 262144 mod 64, v div 4096 mod 64]
          = (v div 262144 mod 64) * 262144 + (v div 4096 mod 64) * 4096"
    by (simp add: quantumValue_def)
  also have "\<dots> = v"
    using sextets [OF lt] m m2 by linarith
  finally have qv: "quantumValue [v div 262144 mod 64, v div 4096 mod 64] = v" .
  have d1: "v div 65536 = unat b0" by (simp add: v_def)
  have "(of_nat (v div 65536) :: byte) = b0"
    by (simp only: d1 byte_of_nat_unat)
  then show ?thesis
    by (simp add: quantumBytes_def qv)
qed

lemma DecodeString_EncodeToString: "DecodeString (EncodeToString bs) = Inr bs"
  unfolding DecodeString_def
proof (induction bs rule: EncodeToString.induct)
  case 1
  show ?case by (simp add: quantumBytes_def)
next
  case (2 b0)
  show ?case using quantum2 [of b0] by (simp add: decodeMap_enc6 Let_def)
next
  case (3 b0 b1)
  show ?case using quantum3 [of b0 b1] by (simp add: decodeMap_enc6 Let_def)
next
  case (4 b0 b1 b2 rest)
  then show ?case using quantum4 [of b0 b1 b2] by (simp add: decodeMap_enc6 Let_def)
qed

lemma EncodeToString_chars: "set (EncodeToString bs) \<subseteq> set encodeStd"
  by (induction bs rule: EncodeToString.induct) (simp_all add: enc6_in Let_def)

lemma dollar_notin_encodeStd: "CHR ''$'' \<notin> set encodeStd"
  by (simp add: encodeStd_def)

lemma ConstantTimeCompare_refl: "ConstantTimeCompare x x = 1"
proof -
  have "fold (\<lambda>(a, b) v. or v (xor a b)) (zip x x) (v :: byte) = v" for v
    by (induction x arbitrary: v) simp_all
  then show ?thesis by (simp add: ConstantTimeCompare_def)
qed

section \<open>Hashing a password and comparing against the hash\<close>

lemma formatUint_no_dollar: "CHR ''$'' \<notin> set (formatUint n)"
  using formatUint_not_space [of "CHR ''$''" n] by blast

lemma EncodeToString_no_dollar: "CHR ''$'' \<notin> set (EncodeToString bs)"
  using EncodeToString_chars [of bs] dollar_notin_encodeStd by blast

lemma formatInt_Version: "formatInt argon2_Version = ''19''"
  by (simp add: formatInt_def argon2_Version_def formatUint.simps digitChar_def)

lemma splitOn_encodeHashString:
  "splitOn CHR ''$'' (encodeHashString g (EncodeToString salt) (EncodeToString hash)) =
     [[], ''argon2id'', ''v='' @ formatInt argon2_Version,
      ''m='' @ formatUint (unat (argon2Memory g)) @ '',t='' @ formatUint (unat (argon2Iterations g))
        @ '',p='' @ formatUint (unat (argon2Parallelism g)),
      EncodeToString salt, EncodeToString hash]"
proof -
  let ?d = "CHR ''$''"
  let ?mtp = "''m='' @ formatUint (unat (argon2Memory g)) @ '',t=''
                @ formatUint (unat (argon2Iterations g)) @ '',p=''
                @ formatUint (unat (argon2Parallelism g))"
  have nd: "?d \<notin> set ?mtp"
    by (simp add: formatUint_no_dollar)
  have s5: "splitOn ?d (EncodeToString hash) = [EncodeToString hash]"
    by (simp add: splitOn_nosep EncodeToString_no_dollar)
  have s4: "splitOn ?d (EncodeToString salt @ ?d # EncodeToString hash)
              = [EncodeToString salt, EncodeToString hash]"
    by (simp add: splitOn_append EncodeToString_no_dollar s5)
  have s3: "splitOn ?d (?mtp @ ?d # EncodeToString salt @ ?d # EncodeToString hash)
              = [?mtp, EncodeToString salt, EncodeToString hash]"
    using splitOn_append [OF nd, of "EncodeToString salt @ ?d # EncodeToString hash"] s4
    by simp
  have "encodeHashString g (EncodeToString salt) (EncodeToString hash)
          = ''$argon2id$v=19$'' @ (?mtp @ ?d # EncodeToString salt @ ?d # EncodeToString hash)"
    by (simp add: encodeHashString_def formatInt_Version)
  then show ?thesis
    using s3 by (simp add: formatInt_Version)
qed

lemma decodeHash_encodeHashString:
  "decodeHash (encodeHashString g (EncodeToString salt) (EncodeToString hash)) =
     Inr (\<lparr>memory = argon2Memory g, iterations = argon2Iterations g,
            parallelism = argon2Parallelism g,
            saltLength = of_nat (length salt), keyLength = of_nat (length hash)\<rparr>, salt, hash)"
proof -
  have m: "unat (argon2Memory g) < 2 ^ 32" "unat (argon2Iterations g) < 2 ^ 32"
    "unat (argon2Parallelism g) < 2 ^ 8"
    using unsigned_less [of "argon2Memory g"] unsigned_less [of "argon2Iterations g"]
      unsigned_less [of "argon2Parallelism g"] by simp_all
  show ?thesis
    unfolding decodeHash_def splitOn_encodeHashString
    using Sscanf_v_Version Sscanf_mtp_format [OF m]
    by (simp add: bindE_def DecodeString_EncodeToString)
qed

lemma HashPassword_returns:
  assumes "randError rnd = None" "argon2Iterations g \<noteq> 0" "argon2Parallelism g \<noteq> 0"
  shows "\<exists>encodedHash. HashPassword g k rnd password = Return (Inr encodedHash)"
  using assms
  by (simp add: HashPassword_def generateRandomBytes_def IDKey_def argon2KeyLength_def not_less)

text \<open>
  C3.  Whatever the salt drawn and whatever the cost parameters in force, when
  \<open>HashPassword\<close> produces an encoded hash for a password, \<open>ComparePasswordWithHash\<close>
  on that hash and the same password returns \<open>true\<close> with no error.  (By
  \<open>HashPassword_returns\<close> a hash is produced whenever the random source delivers and the
  pass count and the parallelism are at least one.)
\<close>

theorem ComparePasswordWithHash_HashPassword:
  assumes "HashPassword g k rnd password = Return (Inr encodedHash)"
  shows "ComparePasswordWithHash k encodedHash password = Return (Inr True)"
proof -
  from assms obtain salt hash where
    salt: "generateRandomBytes rnd argon2SaltLength = Inr salt" and
    hash: "IDKey k (bytesOf password) salt (argon2Iterations g) (argon2Memory g)
             (argon2Parallelism g) argon2KeyLength = Return hash" and
    enc: "encodedHash = encodeHashString g (EncodeToString salt) (EncodeToString hash)"
    by (auto simp: HashPassword_def split: sum.splits result.splits)
  from hash have len: "length hash = 32"
    by (auto simp: IDKey_def argon2KeyLength_def split: if_splits)
  then have kl: "(of_nat (length hash) :: 32 word) = argon2KeyLength"
    by (simp add: argon2KeyLength_def)
  show ?thesis
    by (simp add: ComparePasswordWithHash_def enc decodeHash_encodeHashString kl hash
        ConstantTimeCompare_refl)
qed

theorem ComparePasswordWithHash_HashPassword_witness:
  "HashPassword defaultArgonParams exampleKdf exampleRand ''pw'' = Return (Inr exampleHash) \<and>
   ComparePasswordWithHash exampleKdf exampleHash ''pw'' = Return (Inr True)"
proof -
  have h: "HashPassword defaultArgonParams exampleKdf exampleRand ''pw'' = Return (Inr exampleHash)"
    by (simp add: HashPassword_def generateRandomBytes_def exampleRand_def exampleKdf_def
        defaultArgonParams_def IDKey_def argon2SaltLength_def argon2KeyLength_def
        encodeHashString_def formatInt_def argon2_Version_def formatUint.simps digitChar_def
        upt_rec enc6_def encodeStd_def exampleHash_def)
  show ?thesis
    using h ComparePasswordWithHash_HashPassword [OF h] by simp
qed

section \<open>Malformed encoded hashes\<close>

lemma decodeHash_zeroPassesHash:
  "decodeHash zeroPassesHash =
     Inr (\<lparr>memory = 65536, iterations = 0, parallelism = 1, saltLength = 4, keyLength = 4\<rparr>,
          bytesOf ''salt'', bytesOf ''hash'')"
  by (simp add: decodeHash_def zeroPassesHash_def bindE_def Sscanf_v_def Sscanf_mtp_def
      scanInt_def scanUint_def scanNumber_def isNumChar_def isSpace_def ParseInt_def
      ParseUint_def digitVal_def argon2_Version_def DecodeString_def decodeMap_def
      encodeStd_def quantumBytes_def quantumValue_def bytesOf_def)

text \<open>
  C4 (where the code departs from it).  The encoded hash
  \<open>$argon2id$v=19$m=65536,t=0,p=1$c2FsdA$aGFzaA\<close> has six fields, the running version and
  well-formed parameters, salt and digest, so \<open>decodeHash\<close> accepts it; the pass count
  0 it carries is handed to \<open>argon2.IDKey\<close> unchecked, and the call panics instead of
  returning an error value, for every key derivation and every password.
\<close>

theorem ComparePasswordWithHash_panics:
  "ComparePasswordWithHash k zeroPassesHash password
     = Panic ''argon2: number of rounds too small''"
  by (simp add: ComparePasswordWithHash_def decodeHash_zeroPassesHash IDKey_def)

section \<open>The login throttle\<close>

lemma loginSucceeded_effects:
  "\<exists>rest. snd (loginSucceeded h now req user effs) = effs @ rest"
  by (auto simp: loginSucceeded_def Let_def split: prod.splits sum.splits option.splits)

text \<open>
  C5.  For a login request that reaches the account (it binds, its fields are filled, the
  instance is allowed, the account exists): with 10 or more failed attempts stamped
  within the last 300 seconds the request is answered \<open>401 invalid email or password\<close>
  after recording the attempt and a randomized delay, and the password is not compared;
  with 9 such attempts the request is not throttled, the password comparison being the
  first thing that follows; and a list holding only attempts older than 300 seconds,
  however long, does not throttle either.
\<close>

theorem login_throttle:
  assumes "login_Email req \<noteq> []" and "login_Password req \<noteq> []"
    and "login_InstanceID req \<noteq> []"
    and "isInstanceAllowed h (login_InstanceID req)"
    and "GetUserByAccountID h (login_InstanceID req) (SanitizeEmail h (login_Email req)) = Inr user"
  shows
    "(10 \<le> length (filter (\<lambda>t. now - 300 \<le> t) (FailedLoginAttempts (Account user))) \<longrightarrow>
        loginWithEmail h now (Inr req) =
          (errorResponse 401 ''invalid email or password'',
           [SaveFailedLoginAttemptCall (login_InstanceID req) (ID user), RandomWait 5])) \<and>
     (length (filter (\<lambda>t. now - 300 \<le> t) (FailedLoginAttempts (Account user))) = 9 \<longrightarrow>
        take 1 (snd (loginWithEmail h now (Inr req))) = [ComparePasswordWithHashCall]) \<and>
     ((\<forall>t \<in> set (FailedLoginAttempts (Account user)). t < now - 300) \<longrightarrow>
        take 1 (snd (loginWithEmail h now (Inr req))) = [ComparePasswordWithHashCall])"
proof -
  let ?recent = "filter (\<lambda>t. now - 300 \<le> t) (FailedLoginAttempts (Account user))"
  have thr: "HasMoreAttemptsRecently now (FailedLoginAttempts (Account user))
               allowedPasswordAttempts loginFailedAttemptWindow \<longleftrightarrow> 10 \<le> length ?recent"
    by (simp add: HasMoreAttemptsRecently_def allowedPasswordAttempts_def
        loginFailedAttemptWindow_def)
  have pass: "take 1 (snd (loginWithEmail h now (Inr req))) = [ComparePasswordWithHashCall]"
    if "\<not> 10 \<le> length ?recent"
  proof -
    obtain rest where
      "snd (loginSucceeded h now (req\<lparr>login_Email := SanitizeEmail h (login_Email req)\<rparr>) user
              [ComparePasswordWithHashCall]) = [ComparePasswordWithHashCall] @ rest"
      using loginSucceeded_effects by blast
    with that assms thr show ?thesis
      by (auto simp: loginWithEmail_def Let_def split: result.splits)
  qed
  have old: "?recent = []" if "\<forall>t \<in> set (FailedLoginAttempts (Account user)). t < now - 300"
    using that by (auto simp: filter_empty_conv)
  show ?thesis
    using assms thr pass old by (auto simp: loginWithEmail_def Let_def)
qed

section \<open>The signup rate limit\<close>

lemma signupCreated_no_AddUser:
  "AddUserCall i u \<in> set (snd (signupCreated h req newUser effs)) \<Longrightarrow> AddUserCall i u \<in> set effs"
  by (auto simp: signupCreated_def Let_def split: prod.splits sum.splits option.splits)

text \<open>
  C6.  When the store reports a count of recently created users in the instance that
  reaches or exceeds \<open>maxNewUsersPer5Minute\<close>, no call of \<open>signupWithEmail\<close> reaches
  \<open>AddUser\<close>, and a request that passes the checks made before the count is answered
  \<open>429 try again later\<close> after a randomized delay, with nothing else done.
\<close>

theorem signup_rate_limited:
  assumes "CountRecentlyCreatedUsers h (signup_InstanceID req) signupRateLimitWindow = Inr n"
    and "maxNewUsersPer5Minute h \<le> n"
  shows
    "(\<forall>i u. AddUserCall i u \<notin> set (snd (signupWithEmail h (Inr req)))) \<and>
     (signup_Email req \<noteq> [] \<and> signup_Password req \<noteq> [] \<and> signup_InstanceID req \<noteq> [] \<and>
      signup_InfoCheck req = [] \<and> isInstanceAllowed h (signup_InstanceID req) \<and>
      CheckEmailFormat h (SanitizeEmail h (signup_Email req)) \<and>
      CheckPasswordFormat h (signup_Password req) \<and>
      CheckLanguageCode h (signup_PreferredLanguage req) \<longrightarrow>
        signupWithEmail h (Inr req) = (errorResponse 429 ''try again later'', [RandomWait 5]))"
  using assms by (auto simp: signupWithEmail_def Let_def)

section \<open>Pruning of the attempt lists at login\<close>



section \<open>The cooldown of the verification email\<close>



section \<open>Successful answers do not carry the password hash\<close>

lemma tokenAnswer_cleared:
  "tokenAnswer h t rt mp otp (clearSecrets u) = Responded r \<Longrightarrow> secretsCleared r"
  by (auto simp: tokenAnswer_def clearSecrets_def secretsCleared_def)

lemma errorResponse_not_200:
  "errorResponse st msg = Responded r \<Longrightarrow> status r = 200 \<Longrightarrow> st = 200"
  by (auto simp: errorResponse_def)

lemma loginSucceeded_200:
  "loginSucceeded h now req user effs = (Responded r, effs') \<Longrightarrow> status r = 200 \<Longrightarrow> secretsCleared r"
  by (auto simp: loginSucceeded_def Let_def errorResponse_def
      split: prod.splits sum.splits option.splits dest: tokenAnswer_cleared)

lemma loginWithEmail_200:
  "loginWithEmail h now bound = (Responded r, effs) \<Longrightarrow> status r = 200 \<Longrightarrow> secretsCleared r"
  by (auto simp: loginWithEmail_def Let_def errorResponse_def
      split: sum.splits if_splits result.splits dest: loginSucceeded_200)

lemma signupCreated_200:
  "signupCreated h req newUser effs = (Responded r, effs') \<Longrightarrow> status r = 200 \<Longrightarrow> secretsCleared r"
  by (auto simp: signupCreated_def Let_def errorResponse_def
      split: prod.splits sum.splits option.splits dest: tokenAnswer_cleared)

lemma signupWithEmail_200:
  "signupWithEmail h bound = (Responded r, effs) \<Longrightarrow> status r = 200 \<Longrightarrow> secretsCleared r"
  by (auto simp: signupWithEmail_def Let_def errorResponse_def
      split: sum.splits if_splits result.splits dest: signupCreated_200)

lemma refreshServed_200:
  "refreshServed h now token user served effs = (Responded r, effs') \<Longrightarrow> status r = 200 \<Longrightarrow> secretsCleared r"
  by (auto simp: refreshServed_def Let_def errorResponse_def
      split: prod.splits sum.splits option.splits dest: tokenAnswer_cleared)

lemma refreshToken_200:
  "refreshToken h now ledger token bound = ((Responded r, effs), ledger') \<Longrightarrow> status r = 200
     \<Longrightarrow> secretsCleared r"
  by (auto simp: refreshToken_def Let_def errorResponse_def
      split: sum.splits if_splits prod.splits option.splits dest: refreshServed_200)

lemma verifyEmail_200:
  "verifyEmail h now bound = (Responded r, effs) \<Longrightarrow> status r = 200 \<Longrightarrow> passwordCleared r"
  by (auto simp: verifyEmail_def Let_def errorResponse_def passwordCleared_def
      split: sum.splits if_splits prod.splits option.splits)

text \<open>
  C10.  Every answer with status 200 of \<open>loginWithEmail\<close>, \<open>signupWithEmail\<close> and
  \<open>refreshToken\<close> carries a user whose \<open>Account.Password\<close> is the empty string and whose
  verification code is blank, and every answer with status 200 of \<open>verifyEmail\<close> carries
  a user whose \<open>Account.Password\<close> is the empty string.
\<close>

theorem success_responses_hide_password:
  "(loginWithEmail h now boundLogin = (Responded rl, el) \<and> status rl = 200
      \<longrightarrow> secretsCleared rl) \<and>
   (signupWithEmail h boundSignup = (Responded rs, es) \<and> status rs = 200
      \<longrightarrow> secretsCleared rs) \<and>
   (refreshToken h now ledger token boundRefresh = ((Responded rr, er), ledger') \<and> status rr = 200
      \<longrightarrow> secretsCleared rr) \<and>
   (verifyEmail h now boundVerify = (Responded rv, ev) \<and> status rv = 200
      \<longrightarrow> passwordCleared rv)"
  by (intro conjI impI)
     (auto intro: loginWithEmail_200 signupWithEmail_200 refreshToken_200 verifyEmail_200)

section \<open>Refreshing a session\<close>

lemma rotate_no_match:
  assumes "case ledger (i, u) of
             None \<Rightarrow> True
           | Some r \<Rightarrow> supplied \<noteq> current r \<and> staged r \<noteq> Some supplied"
  shows "rotateToken ledger i u supplied cand = ((None, True), ledger)"
  using assms by (auto simp: rotateToken_def split: option.splits)

text \<open>
  C1.  When the supplied refresh token equals neither the current nor the staged next
  token kept for the instance and user (or nothing is kept for them), the rotation
  reports a replay and serves nothing; \<open>refreshToken\<close> answers with an error (\<open>500\<close>
  once the user is found and the candidate token generated), so no session token goes
  out, no renew token is created and the ledger stays as it was.
\<close>

theorem refresh_replay_rejected:
  assumes "case ledger (claims_InstanceID token, Subject token) of
             None \<Rightarrow> True
           | Some r \<Rightarrow> RefreshToken req \<noteq> current r \<and> staged r \<noteq> Some (RefreshToken req)"
  shows
    "fst (rotateToken ledger (claims_InstanceID token) (Subject token) (RefreshToken req) cand)
       = (None, True) \<and>
     fst (fst (refreshToken h now ledger token (Inr req)))
       \<in> {errorResponse 401 ''invalid token'', errorResponse 500 ''internal server error''} \<and>
     (GetUser h (claims_InstanceID token) (Subject token) = Inr user \<and>
      GenerateUniqueTokenString h = Inr cand \<longrightarrow>
        fst (refreshToken h now ledger token (Inr req))
          = (errorResponse 500 ''internal server error'',
             [GenerateUniqueTokenStringCall,
              FindAndUpdateRenewTokenCall (claims_InstanceID token) (Subject token)
                (RefreshToken req) cand])) \<and>
     GenerateNewParticipantUserTokenCall
       \<notin> set (snd (fst (refreshToken h now ledger token (Inr req)))) \<and>
     (\<forall>i u t. CreateRenewTokenCall i u t \<notin> set (snd (fst (refreshToken h now ledger token (Inr req))))) \<and>
     snd (refreshToken h now ledger token (Inr req)) = ledger"
  using assms
    rotate_no_match [where ledger = ledger and i = "claims_InstanceID token"
      and u = "Subject token" and supplied = "RefreshToken req"]
  by (auto simp: refreshToken_def FindAndUpdateRenewToken_def Let_def split: sum.splits)



section \<open>The handlers on concrete requests\<close>

lemma compare_exampleHash:
  "ComparePasswordWithHash exampleKdf exampleHash ''pw'' = Return (Inr True)"
  by (simp add: ComparePasswordWithHash_def decodeHash_def exampleHash_def bindE_def
      Sscanf_v_def Sscanf_mtp_def scanInt_def scanUint_def scanNumber_def isNumChar_def
      isSpace_def ParseInt_def ParseUint_def digitVal_def argon2_Version_def DecodeString_def
      decodeMap_def encodeStd_def quantumBytes_def quantumValue_def bytesOf_def IDKey_def
      exampleKdf_def upt_rec ConstantTimeCompare_def)

lemma login_example:
  "loginWithEmail (exampleEnv (storedUser [99000]) 10) 100000 (Inr exampleLoginReq) =
     (tokenAnswer (exampleEnv (storedUser [99000]) 10) ''jwt'' ''fresh'' ''p1'' None
        (clearSecrets userAfterLogin),
      [ComparePasswordWithHashCall,
       GenerateNewParticipantUserTokenCall,
       GenerateUniqueTokenStringCall,
       CreateRenewTokenCall ''inst'' ''u1'' ''fresh'',
       ReplaceUserCall ''inst'' userAfterLogin,
       DeleteAllTempTokenForUserCall ''inst'' ''u1'' TOKEN_PURPOSE_PASSWORD_RESET])"
  by (simp add: loginWithEmail_def loginSucceeded_def exampleEnv_def exampleLoginReq_def
      storedUser_def userAfterLogin_def compare_exampleHash HasMoreAttemptsRecently_def
      RemoveAttemptsOlderThan_def allowedPasswordAttempts_def loginFailedAttemptWindow_def
      jwtArgs_def Let_def)


lemma storedUser_simps:
  "ID (storedUser a) = ''u1''"
  "FailedLoginAttempts (Account (storedUser a)) = a"
  by (simp_all add: storedUser_def)

lemma exampleLoginReq_instance: "login_InstanceID exampleLoginReq = ''inst''"
  by (simp add: exampleLoginReq_def)

lemma exampleLoginReq_filled:
  "login_Email exampleLoginReq \<noteq> []" "login_Password exampleLoginReq \<noteq> []"
  "login_InstanceID exampleLoginReq \<noteq> []"
  by (simp_all add: exampleLoginReq_def)

lemma exampleEnv_allowed:
  "isInstanceAllowed (exampleEnv u cap) (login_InstanceID exampleLoginReq)"
  by (simp add: exampleEnv_def exampleLoginReq_def)

lemma exampleEnv_user:
  "GetUserByAccountID (exampleEnv u cap) (login_InstanceID exampleLoginReq)
     (SanitizeEmail (exampleEnv u cap) (login_Email exampleLoginReq)) = Inr u"
  by (simp add: exampleEnv_def exampleLoginReq_def)

theorem login_throttle_witness:
  "loginWithEmail (exampleEnv (storedUser tenRecent) 10) 100000 (Inr exampleLoginReq) =
     (errorResponse 401 ''invalid email or password'',
      [SaveFailedLoginAttemptCall ''inst'' ''u1'', RandomWait 5]) \<and>
   take 1 (snd (loginWithEmail (exampleEnv (storedUser nineRecent) 10) 100000 (Inr exampleLoginReq)))
     = [ComparePasswordWithHashCall] \<and>
   take 1 (snd (loginWithEmail (exampleEnv (storedUser twelveOld) 10) 100000 (Inr exampleLoginReq)))
     = [ComparePasswordWithHashCall]"
proof -
  have a: "loginWithEmail (exampleEnv (storedUser tenRecent) 10) 100000 (Inr exampleLoginReq) =
     (errorResponse 401 ''invalid email or password'',
      [SaveFailedLoginAttemptCall ''inst'' ''u1'', RandomWait 5])"
    using login_throttle [OF exampleLoginReq_filled exampleEnv_allowed
        exampleEnv_user [of "storedUser tenRecent" 10], of 100000]
    by (simp add: storedUser_simps tenRecent_def exampleLoginReq_instance)
  have b: "take 1 (snd (loginWithEmail (exampleEnv (storedUser nineRecent) 10) 100000
              (Inr exampleLoginReq))) = [ComparePasswordWithHashCall]"
    using login_throttle [OF exampleLoginReq_filled exampleEnv_allowed
        exampleEnv_user [of "storedUser nineRecent" 10], of 100000]
    by (simp add: storedUser_simps nineRecent_def)
  have c: "take 1 (snd (loginWithEmail (exampleEnv (storedUser twelveOld) 10) 100000
              (Inr exampleLoginReq))) = [ComparePasswordWithHashCall]"
    using login_throttle [OF exampleLoginReq_filled exampleEnv_allowed
        exampleEnv_user [of "storedUser twelveOld" 10], of 100000]
    by (simp add: storedUser_simps twelveOld_def)
  from a b c show ?thesis by simp
qed

theorem signup_rate_limited_witness:
  "signupWithEmail (exampleEnv (storedUser []) 3) (Inr exampleSignupReq)
     = (errorResponse 429 ''try again later'', [RandomWait 5])"
  using signup_rate_limited [of "exampleEnv (storedUser []) 3" exampleSignupReq 3]
  by (simp add: exampleEnv_def exampleSignupReq_def)





lemma HashPassword_example:
  "HashPassword defaultArgonParams exampleKdf exampleRand ''pw'' = Return (Inr exampleHash)"
  by (simp add: HashPassword_def generateRandomBytes_def exampleRand_def exampleKdf_def
      defaultArgonParams_def IDKey_def argon2SaltLength_def argon2KeyLength_def
      encodeHashString_def formatInt_def argon2_Version_def formatUint.simps digitChar_def
      upt_rec enc6_def encodeStd_def exampleHash_def)

lemma signup_example:
  "\<exists>r effs. signupWithEmail (exampleEnv (storedUser []) 10) (Inr exampleSignupReq) = (Responded r, effs)
       \<and> status r = 200"
  by (simp add: signupWithEmail_def signupCreated_def exampleEnv_def exampleSignupReq_def
      HashPassword_example signupRateLimitWindow_def jwtArgs_def tokenAnswer_def Let_def)

lemma refresh_example:
  "refreshToken (exampleEnv (storedUser []) 10) 100000 exampleLedger exampleClaims
       (Inr \<lparr>RefreshToken = ''t1''\<rparr>)
     = ((tokenAnswer (exampleEnv (storedUser []) 10) ''jwt'' ''t1'' ''p1'' (Some [])
           (clearSecrets (storedUser [])),
         [GenerateUniqueTokenStringCall,
          FindAndUpdateRenewTokenCall ''inst'' ''u1'' ''t1'' ''fresh'',
          UpdateUserCall ''inst'' ''u1'' 100000,
          GenerateNewParticipantUserTokenCall]), exampleLedger)"
  by (simp add: refreshToken_def refreshServed_def FindAndUpdateRenewToken_def rotateToken_def
      exampleEnv_def exampleClaims_def exampleLedger_def jwtArgs_def Let_def)

lemma verify_example:
  "\<exists>r effs. verifyEmail (exampleEnv (storedUser []) 10) 100000 (Inr ''tok'') = (Responded r, effs)
       \<and> status r = 200"
  by (simp add: verifyEmail_def exampleEnv_def storedUser_def mapIndex_def ConfirmContactInfo_def
      ACCOUNT_TYPE_EMAIL_def Let_def)

theorem success_responses_hide_password_witness:
  "(\<exists>r effs. loginWithEmail (exampleEnv (storedUser [99000]) 10) 100000 (Inr exampleLoginReq)
              = (Responded r, effs) \<and> status r = 200 \<and> secretsCleared r) \<and>
   (\<exists>r effs. signupWithEmail (exampleEnv (storedUser []) 10) (Inr exampleSignupReq)
              = (Responded r, effs) \<and> status r = 200 \<and> secretsCleared r) \<and>
   (\<exists>r effs l. refreshToken (exampleEnv (storedUser []) 10) 100000 exampleLedger exampleClaims
                (Inr \<lparr>RefreshToken = ''t1''\<rparr>)
              = ((Responded r, effs), l) \<and> status r = 200 \<and> secretsCleared r) \<and>
   (\<exists>r effs. verifyEmail (exampleEnv (storedUser []) 10) 100000 (Inr ''tok'')
              = (Responded r, effs) \<and> status r = 200 \<and> passwordCleared r)"
proof -
  obtain rl el where l: "loginWithEmail (exampleEnv (storedUser [99000]) 10) 100000
      (Inr exampleLoginReq) = (Responded rl, el)" "status rl = 200"
    by (simp add: login_example tokenAnswer_def)
  obtain rs es where s: "signupWithEmail (exampleEnv (storedUser []) 10) (Inr exampleSignupReq)
      = (Responded rs, es)" "status rs = 200"
    using signup_example by blast
  obtain rr er lr where r: "refreshToken (exampleEnv (storedUser []) 10) 100000 exampleLedger
      exampleClaims (Inr \<lparr>RefreshToken = ''t1''\<rparr>) = ((Responded rr, er), lr)" "status rr = 200"
    by (simp add: refresh_example tokenAnswer_def)
  obtain rv ev where v: "verifyEmail (exampleEnv (storedUser []) 10) 100000 (Inr ''tok'')
      = (Responded rv, ev)" "status rv = 200"
    using verify_example by blast
  show ?thesis
    using l s r v
      success_responses_hide_password [where h = "exampleEnv (storedUser []) 10" and now = 100000
        and boundSignup = "Inr exampleSignupReq" and rs = rs and es = es
        and ledger = exampleLedger and token = exampleClaims
        and boundRefresh = "Inr \<lparr>RefreshToken = ''t1''\<rparr>" and rr = rr and er = er and ledger' = lr
        and boundVerify = "Inr ''tok''" and rv = rv and ev = ev
        and boundLogin = "Inl ErrEOF"]
      success_responses_hide_password [where h = "exampleEnv (storedUser [99000]) 10"
        and now = 100000 and boundLogin = "Inr exampleLoginReq" and rl = rl and el = el]
    by blast
qed

lemma exampleClaims_simps:
  "claims_InstanceID exampleClaims = ''inst''" "Subject exampleClaims = ''u1''"
  "LastOTPProvided exampleClaims = []"
  by (simp_all add: exampleClaims_def)

theorem refresh_replay_rejected_witness:
  "refreshToken (exampleEnv (storedUser []) 10) 100000 exampleLedger exampleClaims
       (Inr \<lparr>RefreshToken = ''stolen''\<rparr>)
     = ((errorResponse 500 ''internal server error'',
         [GenerateUniqueTokenStringCall,
          FindAndUpdateRenewTokenCall ''inst'' ''u1'' ''stolen'' ''fresh'']), exampleLedger)"
proof -
  have p: "case exampleLedger (claims_InstanceID exampleClaims, Subject exampleClaims) of
             None \<Rightarrow> True
           | Some r \<Rightarrow> RefreshToken \<lparr>RefreshToken = ''stolen''\<rparr> \<noteq> current r \<and>
               staged r \<noteq> Some (RefreshToken \<lparr>RefreshToken = ''stolen''\<rparr>)"
    by (simp add: exampleLedger_def exampleClaims_def)
  have g: "GetUser (exampleEnv (storedUser []) 10) (claims_InstanceID exampleClaims)
             (Subject exampleClaims) = Inr (storedUser [])"
    "GenerateUniqueTokenString (exampleEnv (storedUser []) 10) = Inr ''fresh''"
    by (simp_all add: exampleEnv_def exampleClaims_def)
  show ?thesis
    using refresh_replay_rejected [where ledger = exampleLedger and token = exampleClaims
        and req = "\<lparr>RefreshToken = ''stolen''\<rparr>" and h = "exampleEnv (storedUser []) 10"
        and user = "storedUser []" and cand = "''fresh''" and now = 100000, OF p] g
    by (simp add: prod_eq_iff exampleClaims_simps)
qed



end
